theory Spec2Isabelle
  imports Complex_Main "HOL-Library.Sublist"
begin

section \<open>Text\<close>

text \<open>
  Text is a list of code units; the model covers the code units below 256, so a
  \<^typ>\<open>string\<close> stands for a JavaScript string over that range.

  The response of the generative model is cleaned up by the expression
  \<^verbatim>\<open>responseText.replace(/```json\n|\n```/g, '').replace(/```/g, '').trim()\<close>,
  which occurs verbatim in \<^verbatim>\<open>extractFinancialData\<close> and in \<^verbatim>\<open>analyzeAudio\<close>.
  A global regular-expression replace scans from the left; at each position it tries
  the alternatives in order, deletes the first match and continues behind it.
\<close>

fun replaceFenceTags :: "string \<Rightarrow> string" where
  "replaceFenceTags [] = []"
| "replaceFenceTags (c # cs) =
     (if prefix ''```json\<newline>'' (c # cs) then replaceFenceTags (drop 7 cs)
      else if prefix ''\<newline>```'' (c # cs) then replaceFenceTags (drop 3 cs)
      else c # replaceFenceTags cs)"

fun replaceBackticks :: "string \<Rightarrow> string" where
  "replaceBackticks [] = []"
| "replaceBackticks (c # cs) =
     (if prefix ''```'' (c # cs) then replaceBackticks (drop 2 cs)
      else c # replaceBackticks cs)"

text \<open>
  \<^verbatim>\<open>String.prototype.trim\<close> removes white space and line terminators from both ends:
  TAB, LF, VT, FF, CR, SP and NBSP among the code units below 256.
\<close>

definition isWhiteSpace :: "char \<Rightarrow> bool" where
  "isWhiteSpace c \<longleftrightarrow>
     c = CHR 0x09 \<or> c = CHR 0x0A \<or> c = CHR 0x0B \<or> c = CHR 0x0C \<or> c = CHR 0x0D \<or>
     c = CHR 0x20 \<or> c = CHR 0xA0"

definition trim :: "string \<Rightarrow> string" where
  "trim s = rev (dropWhile isWhiteSpace (rev (dropWhile isWhiteSpace s)))"

definition jsonString :: "string \<Rightarrow> string" where
  "jsonString responseText = trim (replaceBackticks (replaceFenceTags responseText))"

text \<open>
  A code fence around a text: three backticks, the tag \<^verbatim>\<open>json\<close> or none, a newline;
  the text; a newline and three backticks.
\<close>

definition fenced :: "string \<Rightarrow> string" where
  "fenced body = ''```json\<newline>'' @ body @ ''\<newline>```''"

definition fencedPlain :: "string \<Rightarrow> string" where
  "fencedPlain body = ''```\<newline>'' @ body @ ''\<newline>```''"

text \<open>\<^verbatim>\<open>String.prototype.endsWith\<close>: the last code units of the text are the given ones.\<close>

definition endsWith :: "string \<Rightarrow> string \<Rightarrow> bool" where
  "endsWith s t \<longleftrightarrow> length t \<le> length s \<and> drop (length s - length t) s = t"

section \<open>JSON values\<close>

text \<open>
  What \<^verbatim>\<open>JSON.parse\<close> returns. A number carries the mathematical value of its literal
  (the rounding to a double is not modelled); an object keeps its members in the order
  of the text, and reading a property takes the last member of that name.
\<close>

datatype json =
    JNull
  | JBool bool
  | JNumber rat
  | JString string
  | JArray "json list"
  | JObject "(string \<times> json) list"

text \<open>
  \<^verbatim>\<open>data.k\<close> for a value other than \<^verbatim>\<open>null\<close>: \<open>None\<close> is \<^verbatim>\<open>undefined\<close>. Only objects
  have the properties read by this program (none of them is \<^verbatim>\<open>length\<close>).
\<close>

fun getProp :: "json \<Rightarrow> string \<Rightarrow> json option" where
  "getProp (JObject ms) k = map_of (rev ms) k"
| "getProp _ k = None"

text \<open>Truthiness, as tested by \<^verbatim>\<open>x ? a : b\<close> and \<^verbatim>\<open>x || d\<close>.\<close>

fun truthy :: "json option \<Rightarrow> bool" where
  "truthy None = False"
| "truthy (Some JNull) = False"
| "truthy (Some (JBool b)) = b"
| "truthy (Some (JNumber x)) = (x \<noteq> 0)"
| "truthy (Some (JString s)) = (s \<noteq> [])"
| "truthy (Some (JArray vs)) = True"
| "truthy (Some (JObject ms)) = True"

subsection \<open>A reference reading of JSON texts\<close>

text \<open>
  \<^verbatim>\<open>JSON.parse\<close> belongs to the language, not to the repository: the extraction client
  takes it as a parameter. To run the client on concrete responses, \<open>parseJSON\<close> reads
  the JSON grammar (objects, arrays, strings with the two-character escapes, numbers,
  \<^verbatim>\<open>true\<close>, \<^verbatim>\<open>false\<close>, \<^verbatim>\<open>null\<close>); it does not read \<^verbatim>\<open>\u\<close> escapes, which
  may denote code units outside the modelled range.
\<close>

definition isJsonSpace :: "char \<Rightarrow> bool" where
  "isJsonSpace c \<longleftrightarrow> c = CHR 0x20 \<or> c = CHR 0x09 \<or> c = CHR 0x0A \<or> c = CHR 0x0D"

definition skipSpace :: "string \<Rightarrow> string" where
  "skipSpace = dropWhile isJsonSpace"

definition unescape :: "char \<Rightarrow> char option" where
  "unescape e =
     (if e = CHR 0x22 then Some (CHR 0x22)
      else if e = CHR 0x5C then Some (CHR 0x5C)
      else if e = CHR ''/'' then Some (CHR ''/'')
      else if e = CHR ''b'' then Some (CHR 0x08)
      else if e = CHR ''f'' then Some (CHR 0x0C)
      else if e = CHR ''n'' then Some (CHR 0x0A)
      else if e = CHR ''r'' then Some (CHR 0x0D)
      else if e = CHR ''t'' then Some (CHR 0x09)
      else None)"

text \<open>The characters of a string literal, behind its opening quote.\<close>

fun parseChars :: "string \<Rightarrow> (string \<times> string) option" where
  "parseChars [] = None"
| "parseChars [c] = (if c = CHR 0x22 then Some ([], []) else None)"
| "parseChars (c # e # cs) =
     (if c = CHR 0x22 then Some ([], e # cs)
      else if c = CHR 0x5C then
        (case unescape e of
           None \<Rightarrow> None
         | Some x \<Rightarrow> map_option (\<lambda>(v, r). (x # v, r)) (parseChars cs))
      else if (of_char c :: nat) < 32 then None
      else map_option (\<lambda>(v, r). (c # v, r)) (parseChars (e # cs)))"

definition isDigit :: "char \<Rightarrow> bool" where
  "isDigit c \<longleftrightarrow> 48 \<le> (of_char c :: nat) \<and> (of_char c :: nat) \<le> 57"

definition digitsValue :: "string \<Rightarrow> nat" where
  "digitsValue ds = foldl (\<lambda>a c. 10 * a + (of_char c - 48)) 0 ds"

text \<open>
  A number literal: an optional minus, an integer part without leading zero, an optional
  fraction and an optional exponent.
\<close>

definition parseNumber :: "string \<Rightarrow> (json \<times> string) option" where
  "parseNumber s =
     (let neg = (s \<noteq> [] \<and> hd s = CHR ''-'');
          s1 = (if neg then tl s else s);
          ip = takeWhile isDigit s1;
          s2 = dropWhile isDigit s1;
          hasFrac = (s2 \<noteq> [] \<and> hd s2 = CHR ''.'');
          fp = (if hasFrac then takeWhile isDigit (tl s2) else []);
          s3 = (if hasFrac then dropWhile isDigit (tl s2) else s2);
          hasExp = (s3 \<noteq> [] \<and> (hd s3 = CHR ''e'' \<or> hd s3 = CHR ''E''));
          s4 = (if hasExp then tl s3 else s3);
          expNeg = (hasExp \<and> s4 \<noteq> [] \<and> hd s4 = CHR ''-'');
          s5 = (if hasExp \<and> s4 \<noteq> [] \<and> (hd s4 = CHR ''-'' \<or> hd s4 = CHR ''+'') then tl s4 else s4);
          ep = (if hasExp then takeWhile isDigit s5 else []);
          s6 = (if hasExp then dropWhile isDigit s5 else s3);
          mant = (of_nat (digitsValue (ip @ fp)) :: rat) / 10 ^ length fp;
          scaled = (if expNeg then mant / 10 ^ digitsValue ep else mant * 10 ^ digitsValue ep)
      in if ip = [] \<or> (length ip > 1 \<and> hd ip = CHR ''0'') \<or> (hasFrac \<and> fp = []) \<or> (hasExp \<and> ep = [])
         then None
         else Some (JNumber (if neg then - scaled else scaled), s6))"

text \<open>
  Values, array elements and object members. The first argument bounds the depth of the
  recursion; \<open>parseJSON\<close> supplies more than any text of that length can use.
\<close>

fun parseValue :: "nat \<Rightarrow> string \<Rightarrow> (json \<times> string) option"
  and parseElements :: "nat \<Rightarrow> string \<Rightarrow> (json list \<times> string) option"
  and parseMembers :: "nat \<Rightarrow> string \<Rightarrow> ((string \<times> json) list \<times> string) option"
where
  "parseValue 0 s = None"
| "parseValue (Suc n) s =
     (let t = skipSpace s in
      if t = [] then None
      else if hd t = CHR ''{'' then
        (if skipSpace (tl t) \<noteq> [] \<and> hd (skipSpace (tl t)) = CHR ''}''
         then Some (JObject [], tl (skipSpace (tl t)))
         else map_option (\<lambda>(ms, r). (JObject ms, r)) (parseMembers n (tl t)))
      else if hd t = CHR ''['' then
        (if skipSpace (tl t) \<noteq> [] \<and> hd (skipSpace (tl t)) = CHR '']''
         then Some (JArray [], tl (skipSpace (tl t)))
         else map_option (\<lambda>(vs, r). (JArray vs, r)) (parseElements n (tl t)))
      else if hd t = CHR 0x22 then map_option (\<lambda>(v, r). (JString v, r)) (parseChars (tl t))
      else if prefix ''true'' t then Some (JBool True, drop 4 t)
      else if prefix ''false'' t then Some (JBool False, drop 5 t)
      else if prefix ''null'' t then Some (JNull, drop 4 t)
      else parseNumber t)"
| "parseElements 0 s = None"
| "parseElements (Suc n) s =
     (case parseValue n s of
        None \<Rightarrow> None
      | Some (v, r) \<Rightarrow>
          (let t = skipSpace r in
           if t = [] then None
           else if hd t = CHR '','' then map_option (\<lambda>(vs, r'). (v # vs, r')) (parseElements n (tl t))
           else if hd t = CHR '']'' then Some ([v], tl t)
           else None))"
| "parseMembers 0 s = None"
| "parseMembers (Suc n) s =
     (let t = skipSpace s in
      if t = [] then None
      else if hd t = CHR 0x22 then
        (case parseChars (tl t) of
           None \<Rightarrow> None
         | Some (k, r) \<Rightarrow>
             (let t1 = skipSpace r in
              if t1 = [] then None
              else if hd t1 = CHR '':'' then
                (case parseValue n (tl t1) of
                   None \<Rightarrow> None
                 | Some (v, r2) \<Rightarrow>
                     (let t2 = skipSpace r2 in
                      if t2 = [] then None
                      else if hd t2 = CHR '','' then
                        map_option (\<lambda>(ms, r'). ((k, v) # ms, r')) (parseMembers n (tl t2))
                      else if hd t2 = CHR ''}'' then Some ([(k, v)], tl t2)
                      else None))
              else None))
      else None)"

section \<open>Errors, the environment and the record store\<close>

text \<open>
  A thrown value is an \<^verbatim>\<open>Error\<close> with its message; a value that is not an \<^verbatim>\<open>Error\<close>
  instance and has no \<^verbatim>\<open>message\<close>, such as a string or a number (\<open>NonError\<close>);
  \<^verbatim>\<open>null\<close>; or \<^verbatim>\<open>undefined\<close>. The handlers read the message in two ways. Inside a
  template literal, \<^verbatim>\<open>${error.message}\<close> is the message of an \<^verbatim>\<open>Error\<close>, the text
  \<^verbatim>\<open>undefined\<close> for a value without one, and itself throws a \<^verbatim>\<open>TypeError\<close> when the
  value caught is \<^verbatim>\<open>null\<close> or \<^verbatim>\<open>undefined\<close>. The other way is
  \<^verbatim>\<open>error instanceof Error ? error.message : 'Unknown error'\<close>, which never throws.
\<close>

datatype thrown = Error string | NonError | Null | Undefined

fun message :: "thrown \<Rightarrow> thrown + string" where
  "message (Error m) = Inr m"
| "message NonError = Inr ''undefined''"
| "message Null =
     Inl (Error (''Cannot read properties of null (reading '' @ [CHR 0x27] @ ''message'' @ [CHR 0x27] @ '')''))"
| "message Undefined =
     Inl (Error (''Cannot read properties of undefined (reading '' @ [CHR 0x27] @ ''message'' @ [CHR 0x27] @ '')''))"

fun messageOrUnknown :: "thrown \<Rightarrow> string" where
  "messageOrUnknown (Error m) = m"
| "messageOrUnknown NonError = ''Unknown error''"
| "messageOrUnknown Null = ''Unknown error''"
| "messageOrUnknown Undefined = ''Unknown error''"

text \<open>The reference reading as a \<^verbatim>\<open>JSON.parse\<close>: a text that is not JSON throws.\<close>

definition syntaxError :: thrown where
  "syntaxError = Error ''Unexpected token in JSON''"

definition parseJSON :: "string \<Rightarrow> thrown + json" where
  "parseJSON s =
     (case parseValue (2 * length s + 2) s of
        None \<Rightarrow> Inl syntaxError
      | Some (v, r) \<Rightarrow> if skipSpace r = [] then Inr v else Inl syntaxError)"

text \<open>
  A field of an update is a JSON value taken from the extraction result, a
  \<^verbatim>\<open>new Date(v)\<close> built from one, or \<^verbatim>\<open>new Date()\<close>, the clock's reading. An update
  lists its fields in the order of the object literal; \<open>None\<close> is \<^verbatim>\<open>undefined\<close>.
  A document record maps field names to values, and an update sets the fields it gives
  a value for.
\<close>

datatype val = VJson json | VDate json | VTime nat

type_synonym update = "(string \<times> val option) list"

type_synonym doc = "string \<rightharpoonup> val"

definition applyUpdate :: "doc \<Rightarrow> update \<Rightarrow> doc" where
  "applyUpdate d u = fold (\<lambda>(k, v) m. case v of None \<Rightarrow> m | Some x \<Rightarrow> m(k \<mapsto> x)) u d"

text \<open>What is sent to the generative model: a prompt, or a prompt with inline data.\<close>

datatype request = Text string | Inline string string string

text \<open>
  The observable actions of an execution, in order: entering one of the two client
  functions with its arguments, a call of the generative model, a read of a file, the
  connection to the store, and an update of the store with its outcome.
\<close>

datatype outcome = Applied | NoMatch | Threw

datatype event =
    ExtractFinancialData string
  | AnalyzeAudio string string
  | GenerateContent request
  | ReadFile string
  | ConnectToDatabase
  | FindByIdAndUpdate string update outcome

text \<open>
  Everything outside the repository is a parameter of the model: the credential in the
  process environment, the files (a path that exists holds its content, or the error its
  read throws), the generative model, \<^verbatim>\<open>JSON.parse\<close>, the base64 encoding, the
  connection to the store (\<^verbatim>\<open>connectToDatabase\<close> is defined outside the files
  modelled here; it succeeds or throws), the store's own failures (an update
  that throws, decided by its arguments) and the clock.
\<close>

record env =
  GEMINI_API_KEY :: "string option"
  files :: "string \<rightharpoonup> thrown + string"
  generateContent :: "request \<Rightarrow> thrown + string"
  JSON_parse :: "string \<Rightarrow> thrown + json"
  base64 :: "string \<Rightarrow> string"
  connectFails :: "thrown option"
  updateFails :: "string \<Rightarrow> update \<Rightarrow> thrown option"
  now :: nat

record state =
  store :: "string \<rightharpoonup> doc"
  trace :: "event list"

text \<open>
  An asynchronous function is a computation on the state that returns a value or throws.
  \<open>andThen\<close> is sequencing with \<^verbatim>\<open>await\<close>, \<open>tryCatch\<close> is \<^verbatim>\<open>try { ... } catch (error) { ... }\<close>.
\<close>

type_synonym 'a comp = "state \<Rightarrow> (thrown + 'a) \<times> state"

definition succeed :: "'a \<Rightarrow> 'a comp" where
  "succeed v s = (Inr v, s)"

definition throw :: "thrown \<Rightarrow> 'a comp" where
  "throw e s = (Inl e, s)"

definition andThen :: "'a comp \<Rightarrow> ('a \<Rightarrow> 'b comp) \<Rightarrow> 'b comp" where
  "andThen m f s = (case m s of (Inl e, s') \<Rightarrow> (Inl e, s') | (Inr v, s') \<Rightarrow> f v s')"

definition tryCatch :: "'a comp \<Rightarrow> (thrown \<Rightarrow> 'a comp) \<Rightarrow> 'a comp" where
  "tryCatch m h s = (case m s of (Inl e, s') \<Rightarrow> h e s' | (Inr v, s') \<Rightarrow> (Inr v, s'))"

definition emit :: "event \<Rightarrow> unit comp" where
  "emit ev s = (Inr (), s\<lparr>trace := trace s @ [ev]\<rparr>)"

definition fromResult :: "thrown + 'a \<Rightarrow> 'a comp" where
  "fromResult r s = (r, s)"

text \<open>
  The handlers of the client functions and of the steps before the update all have the
  shape \<^verbatim>\<open>throw new Error(`<prefix>${error.message}`)\<close>: the new error is built from
  the message read, and a read that throws leaves the handler with its own error.
\<close>

definition rethrow :: "string \<Rightarrow> thrown \<Rightarrow> 'a comp" where
  "rethrow pre error =
     (case message error of
        Inl typeError \<Rightarrow> throw typeError
      | Inr m \<Rightarrow> throw (Error (pre @ m)))"

subsection \<open>Files, the generative model and the store\<close>

definition existsSync :: "env \<Rightarrow> string \<Rightarrow> bool" where
  "existsSync E filePath \<longleftrightarrow> files E filePath \<noteq> None"

definition noSuchFile :: "string \<Rightarrow> thrown" where
  "noSuchFile filePath =
     Error (''ENOENT: no such file or directory, open '' @ [CHR 0x27] @ filePath @ [CHR 0x27])"

definition readFile :: "env \<Rightarrow> string \<Rightarrow> string comp" where
  "readFile E filePath =
     andThen (emit (ReadFile filePath)) (\<lambda>_.
       fromResult (case files E filePath of None \<Rightarrow> Inl (noSuchFile filePath) | Some r \<Rightarrow> r))"

definition callModel :: "env \<Rightarrow> request \<Rightarrow> string comp" where
  "callModel E req = andThen (emit (GenerateContent req)) (\<lambda>_. fromResult (generateContent E req))"

definition connectToDatabase :: "env \<Rightarrow> unit comp" where
  "connectToDatabase E =
     andThen (emit ConnectToDatabase) (\<lambda>_.
       case connectFails E of None \<Rightarrow> succeed () | Some e \<Rightarrow> throw e)"

text \<open>
  \<^verbatim>\<open>Model.findByIdAndUpdate(id, update)\<close> returns the matched record, or \<^verbatim>\<open>null\<close>
  (\<open>None\<close>) when the store holds no record of that identifier; it changes the store in
  the first case only.
\<close>

definition findByIdAndUpdate :: "env \<Rightarrow> string \<Rightarrow> update \<Rightarrow> doc option comp" where
  "findByIdAndUpdate E documentId u s =
     (case updateFails E documentId u of
        Some e \<Rightarrow> (Inl e, s\<lparr>trace := trace s @ [FindByIdAndUpdate documentId u Threw]\<rparr>)
      | None \<Rightarrow>
          (case store s documentId of
             None \<Rightarrow> (Inr None, s\<lparr>trace := trace s @ [FindByIdAndUpdate documentId u NoMatch]\<rparr>)
           | Some d \<Rightarrow>
               (Inr (Some d),
                s\<lparr>store := (store s)(documentId \<mapsto> applyUpdate d u),
                  trace := trace s @ [FindByIdAndUpdate documentId u Applied]\<rparr>)))"

section \<open>The extraction client\<close>

subsection \<open>The prompts\<close>

text \<open>The two template literals of the client, line by line as the source has them.\<close>

definition joinLines :: "string list \<Rightarrow> string" where
  "joinLines ls = concat (map (\<lambda>l. l @ ''\<newline>'') ls)"

definition documentPrompt :: "string \<Rightarrow> string" where
  \<open>documentPrompt fileContent =
     joinLines
      [ [],
        ''            You are an expert financial document analyzer. Extract structured data from this document content.'',
        ''            '',
        ''            Extract the following:'',
        ''            - Document type and number'',
        ''            - Vendor and client information'',
        ''            - Dates (invoice date, due date)'',
        ''            - Financial amounts (subtotal, tax, total)'',
        ''            - Line items with descriptions, quantities, and prices'',
        ''            - Currency'',
        '''',
        ''            Return ONLY valid JSON matching this schema:'',
        ''            {'',
        ''                "documentType": "string",'',
        ''                "invoiceNumber": "string (optional)",'',
        ''                "invoiceDate": "ISO date string (optional)",'',
        ''                "dueDate": "ISO date string (optional)",'',
        ''                "vendorName": "string (optional)",'',
        ''                "vendorAddress": "string (optional)",'',
        ''                "clientName": "string (optional)",'',
        ''                "clientAddress": "string (optional)",'',
        ''                "subtotal": number (optional),'',
        ''                "taxAmount": number (optional),'',
        ''                "totalAmount": number,'',
        ''                "currency": "string",'',
        ''                "lineItems": [{ "description": "string", "quantity": number, "unitPrice": number, "totalPrice": number }]'',
        ''            }'',
        '''',
        ''            Document Content:'' ]
     @ ''            '' @ fileContent @ ''\<newline>        ''\<close>

definition audioPrompt :: string where
  \<open>audioPrompt =
     joinLines
      [ [],
        ''            Analyze this audio file. '',
        ''            Identify the speakers (e.g., Speaker 1, Speaker 2).'',
        ''            Determine the overall sentiment (Positive, Neutral, Negative).'',
        ''            List the key financial topics discussed.'',
        ''            Provide a transcript if possible.'',
        '''',
        ''            Return the response in valid JSON format matching this schema:'',
        ''            {'',
        ''                "sentiment": "Positive" | "Neutral" | "Negative",'',
        ''                "speakers": ["Speaker 1", ...],'',
        ''                "topics": ["Topic 1", ...],'',
        ''                "transcript": "Full text transcript..."'',
        ''            }'' ]
     @ ''        ''\<close>

subsection \<open>\<^verbatim>\<open>extractFinancialData\<close> and \<^verbatim>\<open>analyzeAudio\<close>\<close>

text \<open>\<^verbatim>\<open>!apiKey\<close> holds for an absent credential and for the empty string.\<close>

definition missing :: "string option \<Rightarrow> bool" where
  "missing apiKey \<longleftrightarrow> apiKey = None \<or> apiKey = Some []"

definition extractFinancialData :: "env \<Rightarrow> string \<Rightarrow> json comp" where
  "extractFinancialData E fileContent =
     andThen (emit (ExtractFinancialData fileContent)) (\<lambda>_.
       tryCatch
         (if missing (GEMINI_API_KEY E) then throw (Error ''GEMINI_API_KEY is missing'')
          else
            andThen (callModel E (Text (documentPrompt fileContent))) (\<lambda>responseText.
              fromResult (JSON_parse E (jsonString responseText))))
         (rethrow ''Failed to extract financial data from document: ''))"

text \<open>
  The result of \<^verbatim>\<open>analyzeAudio\<close> is a fresh object of four properties read from the
  parsed value; reading a property of \<^verbatim>\<open>null\<close> throws a \<^verbatim>\<open>TypeError\<close>.
\<close>

record analysis =
  sentiment :: "json option"
  speakers :: "json option"
  topics :: "json option"
  transcript :: "json option"

definition nullRead :: "string \<Rightarrow> thrown" where
  "nullRead k =
     Error (''Cannot read properties of null (reading '' @ [CHR 0x27] @ k @ [CHR 0x27] @ '')'')"

definition analysisOf :: "json \<Rightarrow> thrown + analysis" where
  "analysisOf data =
     (if data = JNull then Inl (nullRead ''sentiment'')
      else Inr \<lparr> sentiment = getProp data ''sentiment'',
                 speakers = getProp data ''speakers'',
                 topics = getProp data ''topics'',
                 transcript = getProp data ''transcript'' \<rparr>)"

definition analyzeAudio :: "env \<Rightarrow> string \<Rightarrow> string \<Rightarrow> analysis comp" where
  "analyzeAudio E filePath fileType =
     andThen (emit (AnalyzeAudio filePath fileType)) (\<lambda>_.
       tryCatch
         (if missing (GEMINI_API_KEY E) then throw (Error ''GEMINI_API_KEY is missing'')
          else
            andThen (readFile E filePath) (\<lambda>fileBuffer.
            andThen (callModel E (Inline audioPrompt fileType (base64 E fileBuffer))) (\<lambda>responseText.
            andThen (fromResult (JSON_parse E (jsonString responseText))) (\<lambda>data.
              fromResult (analysisOf data)))))
         (rethrow ''Failed to analyze audio with Gemini: ''))"

section \<open>The processing jobs\<close>

text \<open>
  \<^verbatim>\<open>step.run(id, f)\<close> of the job framework runs \<open>f\<close> and hands on its result or its
  error; the framework's retries are outside the repository and one attempt is modelled.
\<close>

definition JStr :: "string \<Rightarrow> val option" where
  "JStr s = Some (VJson (JString s))"

definition field :: "json \<Rightarrow> string \<Rightarrow> val option" where
  "field data k = map_option VJson (getProp data k)"

definition dateField :: "json \<Rightarrow> string \<Rightarrow> val option" where
  "dateField data k = (if truthy (getProp data k) then map_option VDate (getProp data k) else None)"

definition failedUpdate :: "env \<Rightarrow> thrown \<Rightarrow> update" where
  "failedUpdate E error =
     [ (''status'', JStr ''FAILED''),
       (''processingError'', JStr (messageOrUnknown error)),
       (''processedAt'', Some (VTime (now E))) ]"

definition notFound :: "string \<Rightarrow> thrown" where
  "notFound documentId = Error (''Document with ID '' @ documentId @ '' not found'')"

subsection \<open>\<^verbatim>\<open>processFinancialDocument\<close>\<close>

text \<open>Each step is a \<^verbatim>\<open>try\<close> block and its handler; the block is named after the step.\<close>

definition read_file_try :: "env \<Rightarrow> string \<Rightarrow> string comp" where
  "read_file_try E filePath =
     (if \<not> existsSync E filePath then throw (Error (''File not found at path: '' @ filePath))
      else readFile E filePath)"

definition read_file :: "env \<Rightarrow> string \<Rightarrow> string comp" where
  "read_file E filePath =
     tryCatch (read_file_try E filePath)
       (rethrow ''Failed to read uploaded file: '')"

definition extract_data_with_ai :: "env \<Rightarrow> string \<Rightarrow> json comp" where
  "extract_data_with_ai E fileContent =
     tryCatch (extractFinancialData E fileContent)
       (rethrow ''AI Extraction Failed: '')"

definition completedDocument :: "env \<Rightarrow> json \<Rightarrow> thrown + update" where
  "completedDocument E extractedData =
     (if extractedData = JNull then Inl (nullRead ''documentType'')
      else Inr
        [ (''status'', JStr ''COMPLETED''),
          (''documentType'', field extractedData ''documentType''),
          (''invoiceNumber'', field extractedData ''invoiceNumber''),
          (''invoiceDate'', dateField extractedData ''invoiceDate''),
          (''dueDate'', dateField extractedData ''dueDate''),
          (''vendorName'', field extractedData ''vendorName''),
          (''vendorAddress'', field extractedData ''vendorAddress''),
          (''clientName'', field extractedData ''clientName''),
          (''clientAddress'', field extractedData ''clientAddress''),
          (''subtotal'', field extractedData ''subtotal''),
          (''taxAmount'', field extractedData ''taxAmount''),
          (''totalAmount'', field extractedData ''totalAmount''),
          (''currency'', field extractedData ''currency''),
          (''lineItems'', field extractedData ''lineItems''),
          (''processedAt'', Some (VTime (now E))) ])"

text \<open>
  The body shared by the two \<^verbatim>\<open>update-database\<close> steps: connect, then inside
  \<^verbatim>\<open>try\<close> build the update and apply it, throwing when no record matched; the handler
  marks the record as failed and throws the error it caught.
\<close>

definition writeOutcome :: "env \<Rightarrow> string \<Rightarrow> thrown + update \<Rightarrow> unit comp" where
  "writeOutcome E documentId completed =
     andThen (connectToDatabase E) (\<lambda>_.
       tryCatch
         (andThen (fromResult completed) (\<lambda>u.
          andThen (findByIdAndUpdate E documentId u) (\<lambda>updateResult.
            if updateResult = None then throw (notFound documentId) else succeed ())))
         (\<lambda>error.
            andThen (findByIdAndUpdate E documentId (failedUpdate E error)) (\<lambda>_. throw error)))"

definition update_database :: "env \<Rightarrow> string \<Rightarrow> json \<Rightarrow> unit comp" where
  "update_database E documentId extractedData =
     writeOutcome E documentId (completedDocument E extractedData)"

definition processFinancialDocument :: "env \<Rightarrow> string \<Rightarrow> string \<Rightarrow> (string \<times> string) comp" where
  "processFinancialDocument E documentId filePath =
     andThen (read_file E filePath) (\<lambda>fileContent.
     andThen (extract_data_with_ai E fileContent) (\<lambda>extractedData.
     andThen (update_database E documentId extractedData) (\<lambda>_.
       succeed (documentId, ''completed''))))"

subsection \<open>\<^verbatim>\<open>processFinancialAudio\<close>\<close>

definition fileTypeOf :: "string \<Rightarrow> string" where
  "fileTypeOf filePath = (if endsWith filePath ''.wav'' then ''audio/wav'' else ''audio/mp3'')"

definition analyze_audio_gemini_try :: "env \<Rightarrow> string \<Rightarrow> analysis comp" where
  "analyze_audio_gemini_try E filePath =
     (if \<not> existsSync E filePath then throw (Error (''Audio file not found at path: '' @ filePath))
      else analyzeAudio E filePath (fileTypeOf filePath))"

definition analyze_audio_gemini :: "env \<Rightarrow> string \<Rightarrow> analysis comp" where
  "analyze_audio_gemini E filePath =
     tryCatch (analyze_audio_gemini_try E filePath)
       (rethrow ''Failed to analyze audio with Gemini: '')"

definition transcriptOrDefault :: "json option \<Rightarrow> val option" where
  "transcriptOrDefault t = (if truthy t then map_option VJson t else JStr ''Transcript not available'')"

definition completedAudio :: "env \<Rightarrow> analysis \<Rightarrow> update" where
  "completedAudio E analysisData =
     [ (''status'', JStr ''COMPLETED''),
       (''transcript'', transcriptOrDefault (transcript analysisData)),
       (''sentiment'', map_option VJson (sentiment analysisData)),
       (''speakers'', map_option VJson (speakers analysisData)),
       (''topics'', map_option VJson (topics analysisData)),
       (''processedAt'', Some (VTime (now E))) ]"

definition update_database_audio :: "env \<Rightarrow> string \<Rightarrow> analysis \<Rightarrow> unit comp" where
  "update_database_audio E documentId analysisData =
     writeOutcome E documentId (Inr (completedAudio E analysisData))"

definition processFinancialAudio :: "env \<Rightarrow> string \<Rightarrow> string \<Rightarrow> (string \<times> string) comp" where
  "processFinancialAudio E documentId filePath =
     andThen (analyze_audio_gemini E filePath) (\<lambda>analysisData.
     andThen (update_database_audio E documentId analysisData) (\<lambda>_.
       succeed (documentId, ''completed'')))"

section \<open>Observing an execution\<close>

text \<open>
  The events an execution adds to the trace, and the record mutations among them: an
  update of the store counts as a mutation when it was applied to a record.
\<close>

definition newEvents :: "state \<Rightarrow> state \<Rightarrow> event list" where
  "newEvents s s' = drop (length (trace s)) (trace s')"

fun applied :: "event \<Rightarrow> bool" where
  "applied (FindByIdAndUpdate _ _ Applied) = True"
| "applied _ = False"

definition mutations :: "event list \<Rightarrow> nat" where
  "mutations evs = length (filter applied evs)"

text \<open>The calls of \<^verbatim>\<open>analyzeAudio\<close> among the events, each with its path and mime type.\<close>

fun audioCall :: "event \<Rightarrow> (string \<times> string) option" where
  "audioCall (AnalyzeAudio filePath fileType) = Some (filePath, fileType)"
| "audioCall _ = None"

definition audioCalls :: "event list \<Rightarrow> (string \<times> string) list" where
  "audioCalls evs = List.map_filter audioCall evs"

text \<open>A step is quiet when it leaves the store alone and only adds events that mutate nothing.\<close>

definition quiet :: "state \<Rightarrow> state \<Rightarrow> bool" where
  "quiet s s' \<longleftrightarrow>
     store s' = store s \<and> prefix (trace s) (trace s') \<and> mutations (newEvents s s') = 0"

section \<open>Scenarios\<close>

text \<open>
  The scenarios of the specification as concrete environments: two uploaded records in
  status \<^verbatim>\<open>PROCESSING\<close>; an invoice and a recording on disk; a generative model that
  answers a document prompt with a fenced invoice and an audio prompt with an analysis.
\<close>

definition processing :: doc where
  "processing = [''status'' \<mapsto> VJson (JString ''PROCESSING'')]"

definition uploaded :: state where
  "uploaded = \<lparr> store = [''d1'' \<mapsto> processing, ''d2'' \<mapsto> processing], trace = [] \<rparr>"

definition invoiceResponse :: string where
  \<open>invoiceResponse =
     ''```json\<newline>{"documentType":"Invoice","invoiceNumber":"123","totalAmount":500,"currency":"USD"}\<newline>```''\<close>

definition callResponse :: string where
  \<open>callResponse =
     ''{"sentiment":"Positive","speakers":["Speaker 1"],"topics":["budget"],"transcript":"..."}''\<close>

definition scenario :: env where
  "scenario =
     \<lparr> GEMINI_API_KEY = Some ''secret'',
       files = [''/tmp/invoice.txt'' \<mapsto> Inr ''Invoice #123, Total: $500'',
                ''/tmp/call.wav'' \<mapsto> Inr ''RIFF''],
       generateContent = (\<lambda>req. case req of Text _ \<Rightarrow> Inr invoiceResponse
                                          | Inline _ _ _ \<Rightarrow> Inr callResponse),
       JSON_parse = parseJSON,
       base64 = id,
       connectFails = None,
       updateFails = (\<lambda>_ _. None),
       now = 1000 \<rparr>"

section \<open>Basic facts\<close>

lemmas comp_defs =
  succeed_def throw_def andThen_def tryCatch_def emit_def fromResult_def rethrow_def

lemma endsWith_suffix: "endsWith s t \<longleftrightarrow> suffix t s"
proof
  assume "endsWith s t"
  then have "s = take (length s - length t) s @ t"
    by (metis append_take_drop_id endsWith_def)
  then show "suffix t s" unfolding suffix_def by blast
next
  assume "suffix t s"
  then obtain zs where "s = zs @ t" unfolding suffix_def by blast
  then show "endsWith s t" by (simp add: endsWith_def)
qed

lemma newEvents_append:
  assumes "prefix (trace s) (trace s')" and "prefix (trace s') (trace s'')"
  shows "newEvents s s'' = newEvents s s' @ newEvents s' s''"
proof -
  obtain a where a: "trace s' = trace s @ a" using assms(1) by (auto simp: prefix_def)
  obtain b where b: "trace s'' = trace s' @ b" using assms(2) by (auto simp: prefix_def)
  show ?thesis by (simp add: newEvents_def a b)
qed

lemma mutations_append: "mutations (xs @ ys) = mutations xs + mutations ys"
  by (simp add: mutations_def)

lemma quiet_trans: "quiet s s' \<Longrightarrow> quiet s' s'' \<Longrightarrow> quiet s s''"
  using newEvents_append [of s s' s'']
  by (auto simp: quiet_def mutations_append)

lemma quiet_then:
  assumes "quiet s s'" and "prefix (trace s') (trace s'')"
  shows "mutations (newEvents s s'') = mutations (newEvents s' s'')"
    and "prefix (trace s) (trace s'')"
  using assms newEvents_append [of s s' s'']
  by (auto simp: quiet_def mutations_append)

subsection \<open>The steps before the update are quiet\<close>

lemma read_file_quiet: "quiet s (snd (read_file E p s))"
  by (auto simp: quiet_def newEvents_def read_file_def read_file_try_def comp_defs readFile_def
        mutations_def
      split: sum.splits option.splits prod.splits)

lemma extractFinancialData_quiet: "quiet s (snd (extractFinancialData E c s))"
  by (auto simp: quiet_def newEvents_def extractFinancialData_def comp_defs callModel_def
        mutations_def
      split: sum.splits option.splits prod.splits)

lemma extract_data_with_ai_quiet: "quiet s (snd (extract_data_with_ai E c s))"
  using extractFinancialData_quiet [of s E c]
  by (auto simp: extract_data_with_ai_def tryCatch_def throw_def rethrow_def
      split: sum.splits prod.splits)

lemma analyzeAudio_quiet: "quiet s (snd (analyzeAudio E p t s))"
  by (auto simp: quiet_def newEvents_def analyzeAudio_def comp_defs readFile_def callModel_def
        mutations_def
      split: sum.splits option.splits prod.splits)

lemma analyze_audio_gemini_quiet: "quiet s (snd (analyze_audio_gemini E p s))"
  using analyzeAudio_quiet [of s E p "fileTypeOf p"]
  by (auto simp: analyze_audio_gemini_def analyze_audio_gemini_try_def tryCatch_def throw_def
        rethrow_def
        quiet_def newEvents_def mutations_def
      split: sum.splits prod.splits)

subsection \<open>Updates and the update step\<close>

lemma applyUpdate_snoc: "applyUpdate d (u @ [(k, Some v)]) k = Some v"
  by (simp add: applyUpdate_def)

lemma applyUpdate_last: "u \<noteq> [] \<Longrightarrow> last u = (k, Some v) \<Longrightarrow> applyUpdate d u k = Some v"
  by (metis append_butlast_last_id applyUpdate_snoc)

lemma applyUpdate_other: "k \<notin> fst ` set u \<Longrightarrow> applyUpdate d u k = d k"
proof (induction u arbitrary: d)
  case Nil
  then show ?case by (simp add: applyUpdate_def)
next
  case (Cons a u)
  obtain k' v where a: "a = (k', v)" by (cases a)
  have "applyUpdate d (a # u) = applyUpdate (case v of None \<Rightarrow> d | Some x \<Rightarrow> d(k' \<mapsto> x)) u"
    by (simp add: applyUpdate_def a)
  moreover have "k \<noteq> k'" and "k \<notin> fst ` set u" using Cons.prems a by auto
  ultimately show ?case using Cons.IH by (simp split: option.splits)
qed

lemma processedAt_failed: "applyUpdate d (failedUpdate E e) ''processedAt'' = Some (VTime (now E))"
  by (rule applyUpdate_last) (simp_all add: failedUpdate_def)

lemma processedAt_audio: "applyUpdate d (completedAudio E a) ''processedAt'' = Some (VTime (now E))"
  by (rule applyUpdate_last) (simp_all add: completedAudio_def)

lemma processedAt_document:
  "completedDocument E x = Inr u \<Longrightarrow> applyUpdate d u ''processedAt'' = Some (VTime (now E))"
  by (rule applyUpdate_last) (auto simp: completedDocument_def split: if_splits)

text \<open>The update step on a record that exists, when the failure write cannot throw.\<close>

lemma writeOutcome_present:
  assumes "connectFails E = None"
    and "\<forall>error. updateFails E d (failedUpdate E error) = None"
    and "store s d = Some r"
  shows "\<exists>u. filter applied (newEvents s (snd (writeOutcome E d c s))) = [FindByIdAndUpdate d u Applied]
           \<and> (c = Inr u \<or> (\<exists>error. u = failedUpdate E error))
           \<and> store (snd (writeOutcome E d c s)) d = Some (applyUpdate r u)"
  using assms
  by (auto simp: writeOutcome_def comp_defs connectToDatabase_def findByIdAndUpdate_def newEvents_def
      split: sum.splits option.splits prod.splits)

lemma writeOutcome_absent:
  assumes "connectFails E = None" and "updateFails E d u = None" and "store s d = None"
  shows "fst (writeOutcome E d (Inr u) s)
           = Inl (case updateFails E d (failedUpdate E (notFound d)) of None \<Rightarrow> notFound d | Some e \<Rightarrow> e)"
  using assms
  by (auto simp: writeOutcome_def comp_defs connectToDatabase_def findByIdAndUpdate_def
      split: sum.splits option.splits prod.splits)

lemma writeOutcome_trace:
  "prefix (trace s) (trace (snd (writeOutcome E d c s)))
     \<and> mutations (newEvents s (snd (writeOutcome E d c s))) \<le> 1"
  by (auto simp: writeOutcome_def comp_defs connectToDatabase_def findByIdAndUpdate_def mutations_def newEvents_def
       split: sum.splits option.splits prod.splits)


lemma quiet_filter:
  assumes "quiet s s'" and "prefix (trace s') (trace s'')"
  shows "filter applied (newEvents s s'') = filter applied (newEvents s' s'')"
proof -
  have "filter applied (newEvents s s') = []"
    using assms(1) by (simp add: quiet_def mutations_def)
  moreover have "newEvents s s'' = newEvents s s' @ newEvents s' s''"
    using assms by (intro newEvents_append) (simp_all add: quiet_def)
  ultimately show ?thesis by simp
qed

lemma document_job_reaches:
  assumes "fst (read_file E p s) = Inr c"
    and "fst (extract_data_with_ai E c (snd (read_file E p s))) = Inr x"
  shows "processFinancialDocument E d p s =
           (case writeOutcome E d (completedDocument E x)
                   (snd (extract_data_with_ai E c (snd (read_file E p s)))) of
              (Inl e, s3) \<Rightarrow> (Inl e, s3)
            | (Inr u, s3) \<Rightarrow> (Inr (d, ''completed''), s3))"
proof -
  obtain s1 where s1: "read_file E p s = (Inr c, s1)"
    using assms(1) by (cases "read_file E p s") auto
  obtain s2 where s2: "extract_data_with_ai E c s1 = (Inr x, s2)"
    using assms(2) s1 by (cases "extract_data_with_ai E c s1") auto
  show ?thesis
    by (cases "writeOutcome E d (completedDocument E x) s2")
       (simp add: processFinancialDocument_def update_database_def andThen_def succeed_def s1 s2
          split: sum.splits)
qed

lemma audio_job_reaches:
  assumes "fst (analyze_audio_gemini E p s) = Inr a"
  shows "processFinancialAudio E d p s =
           (case writeOutcome E d (Inr (completedAudio E a)) (snd (analyze_audio_gemini E p s)) of
              (Inl e, s3) \<Rightarrow> (Inl e, s3)
            | (Inr u, s3) \<Rightarrow> (Inr (d, ''completed''), s3))"
proof -
  obtain s1 where s1: "analyze_audio_gemini E p s = (Inr a, s1)"
    using assms by (cases "analyze_audio_gemini E p s") auto
  show ?thesis
    by (cases "writeOutcome E d (Inr (completedAudio E a)) s1")
       (simp add: processFinancialAudio_def update_database_audio_def andThen_def succeed_def s1
          split: sum.splits)
qed

lemma document_job_stops:
  "fst (read_file E p s) = Inl e \<Longrightarrow> processFinancialDocument E d p s = (Inl e, snd (read_file E p s))"
  "fst (read_file E p s) = Inr c \<Longrightarrow> fst (extract_data_with_ai E c (snd (read_file E p s))) = Inl e \<Longrightarrow>
     processFinancialDocument E d p s = (Inl e, snd (extract_data_with_ai E c (snd (read_file E p s))))"
  by (auto simp: processFinancialDocument_def andThen_def split: sum.splits prod.splits)

lemma audio_job_stops:
  "fst (analyze_audio_gemini E p s) = Inl e \<Longrightarrow>
     processFinancialAudio E d p s = (Inl e, snd (analyze_audio_gemini E p s))"
  by (auto simp: processFinancialAudio_def andThen_def split: sum.splits prod.splits)

lemma snd_case_outcome:
  "snd (case m of (Inl e, s3) \<Rightarrow> (Inl e, s3) | (Inr u, s3) \<Rightarrow> (Inr v, s3)) = snd m"
  by (simp split: prod.splits sum.splits)

lemma document_job_bound: "mutations (newEvents s (snd (processFinancialDocument E d p s))) \<le> 1"
proof (cases "fst (read_file E p s)")
  case (Inl e)
  then show ?thesis
    using read_file_quiet [of s E p] by (simp add: document_job_stops quiet_def)
next
  case (Inr c)
  let ?s1 = "snd (read_file E p s)"
  let ?s2 = "snd (extract_data_with_ai E c ?s1)"
  have q: "quiet s ?s2"
    using read_file_quiet [of s E p] extract_data_with_ai_quiet [of ?s1 E c] by (rule quiet_trans)
  show ?thesis
  proof (cases "fst (extract_data_with_ai E c ?s1)")
    case (Inl e)
    then show ?thesis using Inr q by (simp add: document_job_stops quiet_def)
  next
    case x: (Inr x)
    let ?s3 = "snd (writeOutcome E d (completedDocument E x) ?s2)"
    have "mutations (newEvents s ?s3) = mutations (newEvents ?s2 ?s3)"
      using quiet_then(1) [OF q] writeOutcome_trace by blast
    then show ?thesis
      using writeOutcome_trace [of ?s2 E d "completedDocument E x"]
      by (simp add: document_job_reaches [OF Inr x] snd_case_outcome)
  qed
qed

lemma audio_job_bound: "mutations (newEvents s (snd (processFinancialAudio E d p s))) \<le> 1"
proof (cases "fst (analyze_audio_gemini E p s)")
  case (Inl e)
  then show ?thesis
    using analyze_audio_gemini_quiet [of s E p] by (simp add: audio_job_stops quiet_def)
next
  case (Inr a)
  let ?s1 = "snd (analyze_audio_gemini E p s)"
  let ?s3 = "snd (writeOutcome E d (Inr (completedAudio E a)) ?s1)"
  have "mutations (newEvents s ?s3) = mutations (newEvents ?s1 ?s3)"
    using quiet_then(1) [OF analyze_audio_gemini_quiet] writeOutcome_trace by blast
  then show ?thesis
    using writeOutcome_trace [of ?s1 E d "Inr (completedAudio E a)"]
    by (simp add: audio_job_reaches [OF Inr] snd_case_outcome)
qed

lemma writeOutcome_after_quiet:
  assumes q: "quiet s s2"
    and "connectFails E = None"
    and "\<forall>error. updateFails E d (failedUpdate E error) = None"
    and "store s d = Some r"
  shows "\<exists>u. filter applied (newEvents s (snd (writeOutcome E d c s2))) = [FindByIdAndUpdate d u Applied]
           \<and> (c = Inr u \<or> (\<exists>error. u = failedUpdate E error))
           \<and> store (snd (writeOutcome E d c s2)) d = Some (applyUpdate r u)"
proof -
  have "store s2 d = Some r" using q assms(4) by (simp add: quiet_def)
  from writeOutcome_present [OF assms(2) assms(3) this, of c]
  show ?thesis
    using quiet_filter [OF q, of "snd (writeOutcome E d c s2)"] writeOutcome_trace [of s2 E d c]
    by auto
qed

subsection \<open>Stripping a code fence\<close>

lemma sublist_backticks_Cons:
  "\<not> sublist ''```'' (c # cs) \<Longrightarrow> \<not> sublist ''```'' cs \<and> \<not> prefix ''```'' (c # cs)"
  by (metis sublist_Cons_right)

lemma replaceBackticks_id: "\<not> sublist ''```'' body \<Longrightarrow> replaceBackticks body = body"
proof (induction body)
  case Nil
  then show ?case by simp
next
  case (Cons c cs)
  have np: "\<not> prefix ''```'' (c # cs)" and ns: "\<not> sublist ''```'' cs"
    using sublist_backticks_Cons [OF Cons.prems] by simp_all
  have "replaceBackticks (c # cs) = c # replaceBackticks cs"
    by (simp only: replaceBackticks.simps np if_False)
  then show ?case by (simp only: Cons.IH [OF ns])
qed

lemma no_fence_at:
  assumes "\<not> sublist ''```'' (c # cs)"
  shows "\<not> prefix ''```json\<newline>'' (c # cs @ ''\<newline>```'')"
    and "\<not> prefix ''\<newline>```'' (c # cs @ ''\<newline>```'')"
proof -
  have np: "\<not> prefix ''```'' (c # cs)" and ns: "\<not> sublist ''```'' cs"
    using sublist_backticks_Cons [OF assms] by simp_all
  show "\<not> prefix ''```json\<newline>'' (c # cs @ ''\<newline>```'')"
    using np by (cases cs; cases "tl cs") auto
  have "\<not> prefix ''```'' cs"
    using ns by (meson prefix_imp_sublist)
  then show "\<not> prefix ''\<newline>```'' (c # cs @ ''\<newline>```'')"
    by (cases cs; cases "tl cs"; cases "tl (tl cs)") auto
qed

lemma replaceFenceTags_close:
  "\<not> sublist ''```'' body \<Longrightarrow> replaceFenceTags (body @ ''\<newline>```'') = body"
proof (induction body)
  case Nil
  then show ?case by simp
next
  case (Cons c cs)
  have "\<not> sublist ''```'' cs" using sublist_backticks_Cons [OF Cons.prems] by simp
  then have "replaceFenceTags (cs @ ''\<newline>```'') = cs" by (rule Cons.IH)
  moreover have "replaceFenceTags (c # cs @ ''\<newline>```'') = c # replaceFenceTags (cs @ ''\<newline>```'')"
    by (simp only: replaceFenceTags.simps no_fence_at [OF Cons.prems] if_False)
  ultimately show ?case by (simp only: append_Cons)
qed

lemma trim_newline: "trim (CHR ''\<newline>'' # body) = trim body"
  by (simp add: trim_def isWhiteSpace_def)

lemma jsonString_fenced:
  assumes "\<not> sublist ''```'' body"
  shows "jsonString (fenced body) = trim body" and "jsonString (fencedPlain body) = trim body"
proof -
  have "replaceFenceTags (fenced body) = body"
    using replaceFenceTags_close [OF assms] by (simp add: fenced_def)
  then show "jsonString (fenced body) = trim body"
    by (simp add: jsonString_def replaceBackticks_id [OF assms])
  have "\<not> prefix ''\<newline>```'' (CHR ''\<newline>'' # body @ ''\<newline>```'')"
  proof (cases body)
    case Nil
    then show ?thesis by simp
  next
    case (Cons c cs)
    have "\<not> prefix ''```'' (c # cs)" using assms Cons by (meson prefix_imp_sublist)
    then show ?thesis using Cons by (cases cs; cases "tl cs") auto
  qed
  then have "replaceFenceTags (CHR ''\<newline>'' # body @ ''\<newline>```'') = CHR ''\<newline>'' # body"
    by (simp only: replaceFenceTags.simps if_False replaceFenceTags_close [OF assms]) simp
  then have "replaceFenceTags (fencedPlain body) = ''```\<newline>'' @ body"
    by (simp add: fencedPlain_def)
  then show "jsonString (fencedPlain body) = trim body"
    by (simp add: jsonString_def replaceBackticks_id [OF assms] trim_newline)
qed

subsection \<open>The fields an update writes\<close>

lemma applyUpdate_unique:
  "distinct (map fst u) \<Longrightarrow> (k, Some v) \<in> set u \<Longrightarrow> applyUpdate d u k = Some v"
proof (induction u arbitrary: d)
  case Nil
  then show ?case by simp
next
  case (Cons a u)
  obtain k' w where a: "a = (k', w)" by (cases a)
  have step: "applyUpdate d (a # u) = applyUpdate (case w of None \<Rightarrow> d | Some x \<Rightarrow> d(k' \<mapsto> x)) u"
    by (simp add: applyUpdate_def a)
  show ?case
  proof (cases "k' = k")
    case True
    then have "k \<notin> fst ` set u" using Cons.prems(1) a by simp
    moreover from this have "w = Some v" using Cons.prems(2) a True by force
    ultimately show ?thesis using step True by (simp add: applyUpdate_other)
  next
    case False
    then have "(k, Some v) \<in> set u" using Cons.prems(2) a by simp
    moreover have "distinct (map fst u)" using Cons.prems(1) by simp
    ultimately show ?thesis using step Cons.IH by simp
  qed
qed

lemma truthy_iff:
  "truthy t \<longleftrightarrow> t \<notin> {None, Some JNull, Some (JBool False), Some (JNumber 0), Some (JString [])}"
  by (cases t rule: truthy.cases) auto

lemma transcript_written:
  "applyUpdate r (completedAudio E a) ''transcript'' = transcriptOrDefault (transcript a)"
proof -
  have "\<exists>v. transcriptOrDefault (transcript a) = Some v"
    by (cases "transcript a") (simp_all add: transcriptOrDefault_def JStr_def)
  then obtain v where v: "transcriptOrDefault (transcript a) = Some v" ..
  have "applyUpdate r (completedAudio E a) ''transcript'' = Some v"
    by (rule applyUpdate_unique) (simp_all add: completedAudio_def v)
  then show ?thesis by (simp add: v)
qed

lemma status_written: "applyUpdate r (completedAudio E a) ''status'' = JStr ''COMPLETED''"
  unfolding JStr_def by (rule applyUpdate_unique) (simp_all add: completedAudio_def JStr_def)

lemma writeOutcome_success:
  assumes "connectFails E = None" and "updateFails E d u = None" and "store s d = Some r"
  shows "store (snd (writeOutcome E d (Inr u) s)) d = Some (applyUpdate r u)"
  using assms
  by (simp add: writeOutcome_def comp_defs connectToDatabase_def findByIdAndUpdate_def)

subsection \<open>Calls of the audio analysis\<close>

lemma audioCalls_append: "audioCalls (xs @ ys) = audioCalls xs @ audioCalls ys"
  by (simp add: audioCalls_def map_filter_def)

lemma analyzeAudio_calls:
  "prefix (trace s) (trace (snd (analyzeAudio E p t s)))
     \<and> audioCalls (newEvents s (snd (analyzeAudio E p t s))) = [(p, t)]"
  by (auto simp: analyzeAudio_def comp_defs readFile_def callModel_def newEvents_def audioCalls_def
        map_filter_def
      split: sum.splits option.splits prod.splits)

lemma analyze_audio_gemini_calls:
  "prefix (trace s) (trace (snd (analyze_audio_gemini E p s)))
     \<and> audioCalls (newEvents s (snd (analyze_audio_gemini E p s)))
         = (if files E p = None then [] else [(p, fileTypeOf p)])"
  using analyzeAudio_calls [of s E p "fileTypeOf p"]
  by (auto simp: analyze_audio_gemini_def analyze_audio_gemini_try_def existsSync_def tryCatch_def
        throw_def rethrow_def newEvents_def audioCalls_def map_filter_def
      split: sum.splits prod.splits)

lemma writeOutcome_calls:
  "audioCalls (newEvents s (snd (writeOutcome E d c s))) = []"
  by (auto simp: writeOutcome_def comp_defs connectToDatabase_def findByIdAndUpdate_def
        newEvents_def audioCalls_def map_filter_def
      split: sum.splits option.splits prod.splits)

lemma fileTypeOf_suffix:
  "fileTypeOf p = (if suffix ''.wav'' p then ''audio/wav'' else ''audio/mp3'')"
  by (simp add: fileTypeOf_def endsWith_suffix)

section \<open>The claims\<close>

text \<open>
  C1. Two executions with a failure before the update step. A document job without the
  credential fails in its second step: the extraction step surfaces its error and the
  job ends with that same error. An audio job without its file fails in its first step
  in the same way. In both executions the error is raised again as the claim says, but
  no update of the store is attempted: the records stay in status \<^verbatim>\<open>PROCESSING\<close>,
  without \<^verbatim>\<open>processingError\<close> and without \<^verbatim>\<open>processedAt\<close>. The write of \<^verbatim>\<open>FAILED\<close>
  exists only in the handler of the update step.
\<close>

theorem C1_failed_write_missing:
  "processFinancialDocument (scenario\<lparr>GEMINI_API_KEY := None\<rparr>) ''d1'' ''/tmp/invoice.txt'' uploaded
     = (Inl (Error ''AI Extraction Failed: Failed to extract financial data from document: GEMINI_API_KEY is missing''),
        uploaded\<lparr>trace :=
          [ReadFile ''/tmp/invoice.txt'', ExtractFinancialData ''Invoice #123, Total: $500'']\<rparr>)
   \<and> fst (extract_data_with_ai (scenario\<lparr>GEMINI_API_KEY := None\<rparr>) ''Invoice #123, Total: $500''
            (snd (read_file (scenario\<lparr>GEMINI_API_KEY := None\<rparr>) ''/tmp/invoice.txt'' uploaded)))
     = Inl (Error ''AI Extraction Failed: Failed to extract financial data from document: GEMINI_API_KEY is missing'')
   \<and> processFinancialAudio (scenario\<lparr>files := Map.empty\<rparr>) ''d2'' ''/tmp/call.wav'' uploaded
     = (Inl (Error ''Failed to analyze audio with Gemini: Audio file not found at path: /tmp/call.wav''),
        uploaded)
   \<and> fst (analyze_audio_gemini (scenario\<lparr>files := Map.empty\<rparr>) ''/tmp/call.wav'' uploaded)
     = Inl (Error ''Failed to analyze audio with Gemini: Audio file not found at path: /tmp/call.wav'')
   \<and> store uploaded ''d1'' = Some processing
   \<and> store uploaded ''d2'' = Some processing
   \<and> processing ''status'' = Some (VJson (JString ''PROCESSING''))
   \<and> processing ''processingError'' = None
   \<and> processing ''processedAt'' = None"
  by (simp add: processFinancialDocument_def processFinancialAudio_def read_file_def
        read_file_try_def analyze_audio_gemini_def analyze_audio_gemini_try_def existsSync_def
        comp_defs scenario_def readFile_def extract_data_with_ai_def extractFinancialData_def
        missing_def uploaded_def processing_def)

text \<open>
  C2. Every job execution performs at most one record mutation: the success write and
  the failure write are never both applied. An execution whose earlier steps succeed,
  whose connection to the store succeeds, whose record exists and whose failure write
  does not throw performs exactly one mutation: the success write (\<^verbatim>\<open>COMPLETED\<close> with
  the extracted fields) or the failure write (\<^verbatim>\<open>FAILED\<close> with \<^verbatim>\<open>processingError\<close>); the
  write that is applied sets \<^verbatim>\<open>processedAt\<close> to the clock's reading.
\<close>

theorem C2_one_mutation:
  "mutations (newEvents s (snd (processFinancialDocument E documentId filePath s))) \<le> 1
 \<and> mutations (newEvents s (snd (processFinancialAudio E documentId filePath s))) \<le> 1
 \<and> (fst (read_file E filePath s) = Inr fileContent
      \<and> fst (extract_data_with_ai E fileContent (snd (read_file E filePath s))) = Inr extractedData
      \<and> connectFails E = None
      \<and> (\<forall>error. updateFails E documentId (failedUpdate E error) = None)
      \<and> store s documentId = Some r \<longrightarrow>
     (\<exists>u. filter applied (newEvents s (snd (processFinancialDocument E documentId filePath s)))
             = [FindByIdAndUpdate documentId u Applied]
         \<and> (completedDocument E extractedData = Inr u \<or> (\<exists>error. u = failedUpdate E error))
         \<and> store (snd (processFinancialDocument E documentId filePath s)) documentId
             = Some (applyUpdate r u)
         \<and> applyUpdate r u ''processedAt'' = Some (VTime (now E))))
 \<and> (fst (analyze_audio_gemini E filePath s) = Inr analysisData
      \<and> connectFails E = None
      \<and> (\<forall>error. updateFails E documentId (failedUpdate E error) = None)
      \<and> store s documentId = Some r \<longrightarrow>
     (\<exists>u. filter applied (newEvents s (snd (processFinancialAudio E documentId filePath s)))
             = [FindByIdAndUpdate documentId u Applied]
         \<and> (u = completedAudio E analysisData \<or> (\<exists>error. u = failedUpdate E error))
         \<and> store (snd (processFinancialAudio E documentId filePath s)) documentId
             = Some (applyUpdate r u)
         \<and> applyUpdate r u ''processedAt'' = Some (VTime (now E))))"
proof (intro conjI impI)
  show "mutations (newEvents s (snd (processFinancialDocument E documentId filePath s))) \<le> 1"
    by (rule document_job_bound)
  show "mutations (newEvents s (snd (processFinancialAudio E documentId filePath s))) \<le> 1"
    by (rule audio_job_bound)
next
  assume h: "fst (read_file E filePath s) = Inr fileContent
      \<and> fst (extract_data_with_ai E fileContent (snd (read_file E filePath s))) = Inr extractedData
      \<and> connectFails E = None
      \<and> (\<forall>error. updateFails E documentId (failedUpdate E error) = None)
      \<and> store s documentId = Some r"
  then have c: "connectFails E = None"
    and f: "\<forall>error. updateFails E documentId (failedUpdate E error) = None"
    and r: "store s documentId = Some r"
    by blast+
  let ?s1 = "snd (read_file E filePath s)"
  let ?s2 = "snd (extract_data_with_ai E fileContent ?s1)"
  have q: "quiet s ?s2"
    using read_file_quiet [of s E filePath] extract_data_with_ai_quiet [of ?s1 E fileContent]
    by (rule quiet_trans)
  obtain u where u:
    "filter applied (newEvents s (snd (writeOutcome E documentId (completedDocument E extractedData) ?s2)))
       = [FindByIdAndUpdate documentId u Applied]"
    "completedDocument E extractedData = Inr u \<or> (\<exists>error. u = failedUpdate E error)"
    "store (snd (writeOutcome E documentId (completedDocument E extractedData) ?s2)) documentId
       = Some (applyUpdate r u)"
    using writeOutcome_after_quiet [OF q c f r, of "completedDocument E extractedData"]
    by (elim exE conjE)
  have "applyUpdate r u ''processedAt'' = Some (VTime (now E))"
    using u(2) processedAt_document processedAt_failed by blast
  then show "\<exists>u. filter applied (newEvents s (snd (processFinancialDocument E documentId filePath s)))
             = [FindByIdAndUpdate documentId u Applied]
         \<and> (completedDocument E extractedData = Inr u \<or> (\<exists>error. u = failedUpdate E error))
         \<and> store (snd (processFinancialDocument E documentId filePath s)) documentId
             = Some (applyUpdate r u)
         \<and> applyUpdate r u ''processedAt'' = Some (VTime (now E))"
    using u h by (auto simp: document_job_reaches snd_case_outcome)
next
  assume h: "fst (analyze_audio_gemini E filePath s) = Inr analysisData
      \<and> connectFails E = None
      \<and> (\<forall>error. updateFails E documentId (failedUpdate E error) = None)
      \<and> store s documentId = Some r"
  then have c: "connectFails E = None"
    and f: "\<forall>error. updateFails E documentId (failedUpdate E error) = None"
    and r: "store s documentId = Some r"
    by blast+
  let ?s1 = "snd (analyze_audio_gemini E filePath s)"
  obtain u where u:
    "filter applied (newEvents s (snd (writeOutcome E documentId (Inr (completedAudio E analysisData)) ?s1)))
       = [FindByIdAndUpdate documentId u Applied]"
    "Inr (completedAudio E analysisData) = (Inr u :: thrown + update) \<or> (\<exists>error. u = failedUpdate E error)"
    "store (snd (writeOutcome E documentId (Inr (completedAudio E analysisData)) ?s1)) documentId
       = Some (applyUpdate r u)"
    using writeOutcome_after_quiet [OF analyze_audio_gemini_quiet [of s E filePath] c f r,
        of "Inr (completedAudio E analysisData)"]
    by (elim exE conjE)
  have "applyUpdate r u ''processedAt'' = Some (VTime (now E))"
    using u(2) processedAt_audio processedAt_failed by auto
  then show "\<exists>u. filter applied (newEvents s (snd (processFinancialAudio E documentId filePath s)))
             = [FindByIdAndUpdate documentId u Applied]
         \<and> (u = completedAudio E analysisData \<or> (\<exists>error. u = failedUpdate E error))
         \<and> store (snd (processFinancialAudio E documentId filePath s)) documentId
             = Some (applyUpdate r u)
         \<and> applyUpdate r u ''processedAt'' = Some (VTime (now E))"
    using u h by (auto simp: audio_job_reaches snd_case_outcome)
qed

theorem C2_one_mutation_witness:
  "(fst (read_file scenario ''/tmp/invoice.txt'' uploaded) = Inr ''Invoice #123, Total: $500''
      \<and> fst (extract_data_with_ai scenario ''Invoice #123, Total: $500''
                (snd (read_file scenario ''/tmp/invoice.txt'' uploaded)))
           = Inr (JObject [(''documentType'', JString ''Invoice''), (''invoiceNumber'', JString ''123''),
                           (''totalAmount'', JNumber 500), (''currency'', JString ''USD'')])
      \<and> connectFails scenario = None
      \<and> (\<forall>error. updateFails scenario ''d1'' (failedUpdate scenario error) = None)
      \<and> store uploaded ''d1'' = Some processing)
   \<and> (\<exists>u. filter applied (newEvents uploaded (snd (processFinancialDocument scenario ''d1'' ''/tmp/invoice.txt'' uploaded)))
             = [FindByIdAndUpdate ''d1'' u Applied]
         \<and> store (snd (processFinancialDocument scenario ''d1'' ''/tmp/invoice.txt'' uploaded)) ''d1''
             = Some (applyUpdate processing u)
         \<and> applyUpdate processing u ''processedAt'' = Some (VTime (now scenario)))
   \<and> (fst (analyze_audio_gemini scenario ''/tmp/call.wav'' uploaded)
        = Inr \<lparr> sentiment = Some (JString ''Positive''), speakers = Some (JArray [JString ''Speaker 1'']),
                topics = Some (JArray [JString ''budget'']), transcript = Some (JString ''...'') \<rparr>
      \<and> (\<forall>error. updateFails scenario ''d2'' (failedUpdate scenario error) = None)
      \<and> store uploaded ''d2'' = Some processing)
   \<and> (\<exists>u. filter applied (newEvents uploaded (snd (processFinancialAudio scenario ''d2'' ''/tmp/call.wav'' uploaded)))
             = [FindByIdAndUpdate ''d2'' u Applied]
         \<and> store (snd (processFinancialAudio scenario ''d2'' ''/tmp/call.wav'' uploaded)) ''d2''
             = Some (applyUpdate processing u)
         \<and> applyUpdate processing u ''processedAt'' = Some (VTime (now scenario)))"
proof -
  let ?x = "JObject [(''documentType'', JString ''Invoice''), (''invoiceNumber'', JString ''123''),
                     (''totalAmount'', JNumber 500), (''currency'', JString ''USD'')]"
  let ?a = "\<lparr> sentiment = Some (JString ''Positive''), speakers = Some (JArray [JString ''Speaker 1'']),
              topics = Some (JArray [JString ''budget'']), transcript = Some (JString ''...'') \<rparr>"
  have h1: "fst (read_file scenario ''/tmp/invoice.txt'' uploaded) = Inr ''Invoice #123, Total: $500''"
    by code_simp
  have h2: "fst (extract_data_with_ai scenario ''Invoice #123, Total: $500''
                (snd (read_file scenario ''/tmp/invoice.txt'' uploaded))) = Inr ?x"
    by code_simp
  have h3: "connectFails scenario = None"
    and h4: "\<forall>error. updateFails scenario ''d1'' (failedUpdate scenario error) = None"
    and h5: "store uploaded ''d1'' = Some processing"
    and h6: "\<forall>error. updateFails scenario ''d2'' (failedUpdate scenario error) = None"
    and h7: "store uploaded ''d2'' = Some processing"
    by (simp_all add: scenario_def uploaded_def)
  have h8: "fst (analyze_audio_gemini scenario ''/tmp/call.wav'' uploaded) = Inr ?a"
    by code_simp
  show ?thesis
    using C2_one_mutation [of uploaded scenario "''d1''" "''/tmp/invoice.txt''"
        "''Invoice #123, Total: $500''" ?x processing]
      C2_one_mutation [of uploaded scenario "''d2''" "''/tmp/call.wav''" _ _ processing ?a]
      h1 h2 h3 h4 h5 h6 h7 h8
    by blast
qed

text \<open>
  C2 as stated fails: when the store holds no record of the event's identifier, the
  success write matches nothing, the failure write matches nothing either and does not
  throw, and the execution ends without any mutation.
\<close>

theorem C2_counterexample:
  "mutations (newEvents uploaded (snd (processFinancialDocument scenario ''d9'' ''/tmp/invoice.txt'' uploaded))) = 0
   \<and> fst (processFinancialDocument scenario ''d9'' ''/tmp/invoice.txt'' uploaded)
       = Inl (Error ''Document with ID d9 not found'')
   \<and> last (trace (snd (processFinancialDocument scenario ''d9'' ''/tmp/invoice.txt'' uploaded)))
       = FindByIdAndUpdate ''d9'' (failedUpdate scenario (Error ''Document with ID d9 not found'')) NoMatch"
  by code_simp

text \<open>
  C3. A document job whose source file is missing. The job stops in the read step with
  a not-found error that names the path, and the extraction is never entered (the trace
  stays empty); the record, however, is left as it was, in status \<^verbatim>\<open>PROCESSING\<close> and
  without \<^verbatim>\<open>processingError\<close>: only the update step has a handler that marks a record
  as failed.
\<close>

theorem C3_missing_file:
  "processFinancialDocument (scenario\<lparr>files := Map.empty\<rparr>) ''d1'' ''/tmp/invoice.txt'' uploaded
     = (Inl (Error ''Failed to read uploaded file: File not found at path: /tmp/invoice.txt''), uploaded)
   \<and> store uploaded ''d1'' = Some processing
   \<and> processing ''status'' = Some (VJson (JString ''PROCESSING''))
   \<and> processing ''processingError'' = None
   \<and> trace uploaded = []"
  by (simp add: processFinancialDocument_def read_file_def read_file_try_def existsSync_def
        comp_defs scenario_def uploaded_def processing_def)

text \<open>
  C4. A document job whose call of the generative model throws. The job stops in the
  extraction step with the original message inside its error, after the read, the entry
  to the client and the model call; the record is left in status \<^verbatim>\<open>PROCESSING\<close> and
  without \<^verbatim>\<open>processingError\<close>.
\<close>

theorem C4_extraction_raises:
  "processFinancialDocument (scenario\<lparr>generateContent := (\<lambda>_. Inl (Error ''quota exceeded''))\<rparr>)
       ''d1'' ''/tmp/invoice.txt'' uploaded
     = (Inl (Error ''AI Extraction Failed: Failed to extract financial data from document: quota exceeded''),
        uploaded\<lparr>trace :=
          [ReadFile ''/tmp/invoice.txt'',
           ExtractFinancialData ''Invoice #123, Total: $500'',
           GenerateContent (Text (documentPrompt ''Invoice #123, Total: $500''))]\<rparr>)
   \<and> store uploaded ''d1'' = Some processing
   \<and> processing ''status'' = Some (VJson (JString ''PROCESSING''))
   \<and> processing ''processingError'' = None"
  by (simp add: processFinancialDocument_def read_file_def read_file_try_def existsSync_def
        comp_defs scenario_def readFile_def extract_data_with_ai_def extractFinancialData_def
        missing_def callModel_def uploaded_def processing_def)

text \<open>
  C5. In the update step, if no record with the event's identifier exists at the time of
  the success write, the step raises an error that names the missing document, and the
  job fails: with that error when the failure write, which the handler attempts first,
  does not throw, and with the failure write's own error when it does. In neither case
  is the failure swallowed.
\<close>

theorem C5_record_not_found:
  "(fst (read_file E filePath s) = Inr fileContent
      \<and> fst (extract_data_with_ai E fileContent (snd (read_file E filePath s))) = Inr extractedData
      \<and> completedDocument E extractedData = Inr u
      \<and> connectFails E = None
      \<and> updateFails E documentId u = None
      \<and> store s documentId = None \<longrightarrow>
    fst (processFinancialDocument E documentId filePath s)
      = Inl (case updateFails E documentId (failedUpdate E (notFound documentId)) of
               None \<Rightarrow> notFound documentId
             | Some e \<Rightarrow> e))
 \<and> (fst (analyze_audio_gemini E filePath s) = Inr analysisData
      \<and> connectFails E = None
      \<and> updateFails E documentId (completedAudio E analysisData) = None
      \<and> store s documentId = None \<longrightarrow>
    fst (processFinancialAudio E documentId filePath s)
      = Inl (case updateFails E documentId (failedUpdate E (notFound documentId)) of
               None \<Rightarrow> notFound documentId
             | Some e \<Rightarrow> e))"
proof (intro conjI impI)
  assume h: "fst (read_file E filePath s) = Inr fileContent
      \<and> fst (extract_data_with_ai E fileContent (snd (read_file E filePath s))) = Inr extractedData
      \<and> completedDocument E extractedData = Inr u
      \<and> connectFails E = None
      \<and> updateFails E documentId u = None
      \<and> store s documentId = None"
  let ?s2 = "snd (extract_data_with_ai E fileContent (snd (read_file E filePath s)))"
  have "quiet s ?s2"
    using read_file_quiet [of s E filePath]
      extract_data_with_ai_quiet [of "snd (read_file E filePath s)" E fileContent]
    by (rule quiet_trans)
  then have "store ?s2 documentId = None" using h by (simp add: quiet_def)
  then have "fst (writeOutcome E documentId (Inr u) ?s2)
      = Inl (case updateFails E documentId (failedUpdate E (notFound documentId)) of
               None \<Rightarrow> notFound documentId | Some e \<Rightarrow> e)"
    using h by (intro writeOutcome_absent) simp_all
  then show "fst (processFinancialDocument E documentId filePath s)
      = Inl (case updateFails E documentId (failedUpdate E (notFound documentId)) of
               None \<Rightarrow> notFound documentId
             | Some e \<Rightarrow> e)"
    using h by (auto simp: document_job_reaches split: prod.splits sum.splits)
next
  assume h: "fst (analyze_audio_gemini E filePath s) = Inr analysisData
      \<and> connectFails E = None
      \<and> updateFails E documentId (completedAudio E analysisData) = None
      \<and> store s documentId = None"
  let ?s1 = "snd (analyze_audio_gemini E filePath s)"
  have "store ?s1 documentId = None"
    using analyze_audio_gemini_quiet [of s E filePath] h by (simp add: quiet_def)
  then have "fst (writeOutcome E documentId (Inr (completedAudio E analysisData)) ?s1)
      = Inl (case updateFails E documentId (failedUpdate E (notFound documentId)) of
               None \<Rightarrow> notFound documentId | Some e \<Rightarrow> e)"
    using h by (intro writeOutcome_absent) simp_all
  then show "fst (processFinancialAudio E documentId filePath s)
      = Inl (case updateFails E documentId (failedUpdate E (notFound documentId)) of
               None \<Rightarrow> notFound documentId
             | Some e \<Rightarrow> e)"
    using h by (auto simp: audio_job_reaches split: prod.splits sum.splits)
qed

theorem C5_record_not_found_witness:
  "(fst (read_file scenario ''/tmp/invoice.txt'' uploaded) = Inr ''Invoice #123, Total: $500''
      \<and> fst (extract_data_with_ai scenario ''Invoice #123, Total: $500''
                (snd (read_file scenario ''/tmp/invoice.txt'' uploaded)))
           = Inr (JObject [(''documentType'', JString ''Invoice''), (''invoiceNumber'', JString ''123''),
                           (''totalAmount'', JNumber 500), (''currency'', JString ''USD'')])
      \<and> (\<exists>u. completedDocument scenario
                 (JObject [(''documentType'', JString ''Invoice''), (''invoiceNumber'', JString ''123''),
                           (''totalAmount'', JNumber 500), (''currency'', JString ''USD'')]) = Inr u
              \<and> updateFails scenario ''d9'' u = None)
      \<and> connectFails scenario = None
      \<and> store uploaded ''d9'' = None)
   \<and> fst (processFinancialDocument scenario ''d9'' ''/tmp/invoice.txt'' uploaded)
       = Inl (Error ''Document with ID d9 not found'')
   \<and> (fst (analyze_audio_gemini scenario ''/tmp/call.wav'' uploaded)
        = Inr \<lparr> sentiment = Some (JString ''Positive''), speakers = Some (JArray [JString ''Speaker 1'']),
                topics = Some (JArray [JString ''budget'']), transcript = Some (JString ''...'') \<rparr>
      \<and> updateFails scenario ''d9'' (completedAudio scenario
            \<lparr> sentiment = Some (JString ''Positive''), speakers = Some (JArray [JString ''Speaker 1'']),
              topics = Some (JArray [JString ''budget'']), transcript = Some (JString ''...'') \<rparr>) = None)
   \<and> fst (processFinancialAudio scenario ''d9'' ''/tmp/call.wav'' uploaded)
       = Inl (Error ''Document with ID d9 not found'')"
proof -
  let ?x = "JObject [(''documentType'', JString ''Invoice''), (''invoiceNumber'', JString ''123''),
                     (''totalAmount'', JNumber 500), (''currency'', JString ''USD'')]"
  let ?a = "\<lparr> sentiment = Some (JString ''Positive''), speakers = Some (JArray [JString ''Speaker 1'']),
              topics = Some (JArray [JString ''budget'']), transcript = Some (JString ''...'') \<rparr>"
  obtain u where u: "completedDocument scenario ?x = Inr u"
    by (simp add: completedDocument_def)
  have h1: "fst (read_file scenario ''/tmp/invoice.txt'' uploaded) = Inr ''Invoice #123, Total: $500''"
    by code_simp
  have h2: "fst (extract_data_with_ai scenario ''Invoice #123, Total: $500''
                (snd (read_file scenario ''/tmp/invoice.txt'' uploaded))) = Inr ?x"
    by code_simp
  have h3: "connectFails scenario = None" and h4: "updateFails scenario ''d9'' u = None"
    and h5: "store uploaded ''d9'' = None"
    and h6: "updateFails scenario ''d9'' (failedUpdate scenario (notFound ''d9'')) = None"
    and h7: "updateFails scenario ''d9'' (completedAudio scenario ?a) = None"
    by (simp_all add: scenario_def uploaded_def)
  have h8: "fst (analyze_audio_gemini scenario ''/tmp/call.wav'' uploaded) = Inr ?a"
    by code_simp
  have "fst (processFinancialDocument scenario ''d9'' ''/tmp/invoice.txt'' uploaded) = Inl (notFound ''d9'')"
    using C5_record_not_found [of scenario "''/tmp/invoice.txt''" uploaded
        "''Invoice #123, Total: $500''" ?x u "''d9''"] u h1 h2 h3 h4 h5 h6
    by simp
  moreover have "fst (processFinancialAudio scenario ''d9'' ''/tmp/call.wav'' uploaded) = Inl (notFound ''d9'')"
    using C5_record_not_found [of scenario "''/tmp/call.wav''" uploaded _ _ _ "''d9''" ?a] h3 h5 h6 h7 h8
    by simp
  ultimately show ?thesis
    using u h1 h2 h3 h4 h5 h7 h8 by (auto simp: notFound_def)
qed

text \<open>
  C5 as stated has the not-found error leave the job. When the store fails on the
  failure write (here: on every update that sets \<^verbatim>\<open>FAILED\<close>), the success write finds no
  record, the failure write throws, and the job ends with the store's error instead.
\<close>

theorem C5_counterexample:
  "fst (processFinancialDocument
          (scenario\<lparr>updateFails :=
             (\<lambda>_ u. if map_of u ''status'' = Some (Some (VJson (JString ''FAILED'')))
                     then Some (Error ''connection lost'') else None)\<rparr>)
          ''d9'' ''/tmp/invoice.txt'' uploaded)
     = Inl (Error ''connection lost'')
   \<and> map (\<lambda>ev. case ev of FindByIdAndUpdate d u r \<Rightarrow> Some (map_of u ''status'', r) | _ \<Rightarrow> None)
       (drop 4 (trace (snd (processFinancialDocument
          (scenario\<lparr>updateFails :=
             (\<lambda>_ u. if map_of u ''status'' = Some (Some (VJson (JString ''FAILED'')))
                     then Some (Error ''connection lost'') else None)\<rparr>)
          ''d9'' ''/tmp/invoice.txt'' uploaded))))
     = [Some (Some (Some (VJson (JString ''COMPLETED''))), NoMatch),
        Some (Some (Some (VJson (JString ''FAILED''))), Threw)]"
  by code_simp

text \<open>
  C6. For every model response that is a code fence, tagged \<^verbatim>\<open>json\<close> or untagged,
  around a text that contains no three consecutive backticks, the cleaned-up text handed
  to \<^verbatim>\<open>JSON.parse\<close> is the enclosed text without surrounding white space; when that
  parses to a JSON object, \<^verbatim>\<open>extractFinancialData\<close> returns the object and
  \<^verbatim>\<open>analyzeAudio\<close> returns its four properties.
\<close>

theorem C6_fence_stripped:
  "\<not> sublist ''```'' body \<and> (responseText = fenced body \<or> responseText = fencedPlain body) \<longrightarrow>
     jsonString responseText = trim body
   \<and> (\<not> missing (GEMINI_API_KEY E)
        \<and> generateContent E (Text (documentPrompt fileContent)) = Inr responseText
        \<and> JSON_parse E (trim body) = Inr (JObject ms) \<longrightarrow>
      fst (extractFinancialData E fileContent s) = Inr (JObject ms))
   \<and> (\<not> missing (GEMINI_API_KEY E)
        \<and> files E filePath = Some (Inr fileBuffer)
        \<and> generateContent E (Inline audioPrompt fileType (base64 E fileBuffer)) = Inr responseText
        \<and> JSON_parse E (trim body) = Inr (JObject ms) \<longrightarrow>
      fst (analyzeAudio E filePath fileType s)
        = Inr \<lparr> sentiment = getProp (JObject ms) ''sentiment'',
                speakers = getProp (JObject ms) ''speakers'',
                topics = getProp (JObject ms) ''topics'',
                transcript = getProp (JObject ms) ''transcript'' \<rparr>)"
proof (intro impI)
  assume a: "\<not> sublist ''```'' body \<and> (responseText = fenced body \<or> responseText = fencedPlain body)"
  then have j: "jsonString responseText = trim body"
    using jsonString_fenced [of body] by blast
  show "jsonString responseText = trim body
   \<and> (\<not> missing (GEMINI_API_KEY E)
        \<and> generateContent E (Text (documentPrompt fileContent)) = Inr responseText
        \<and> JSON_parse E (trim body) = Inr (JObject ms) \<longrightarrow>
      fst (extractFinancialData E fileContent s) = Inr (JObject ms))
   \<and> (\<not> missing (GEMINI_API_KEY E)
        \<and> files E filePath = Some (Inr fileBuffer)
        \<and> generateContent E (Inline audioPrompt fileType (base64 E fileBuffer)) = Inr responseText
        \<and> JSON_parse E (trim body) = Inr (JObject ms) \<longrightarrow>
      fst (analyzeAudio E filePath fileType s)
        = Inr \<lparr> sentiment = getProp (JObject ms) ''sentiment'',
                speakers = getProp (JObject ms) ''speakers'',
                topics = getProp (JObject ms) ''topics'',
                transcript = getProp (JObject ms) ''transcript'' \<rparr>)"
    using j
    by (simp add: extractFinancialData_def analyzeAudio_def comp_defs callModel_def readFile_def
          analysisOf_def)
qed

theorem C6_fence_stripped_witness:
  \<open>(\<not> sublist ''```'' ''{"documentType":"Invoice","invoiceNumber":"123","totalAmount":500,"currency":"USD"}''
     \<and> invoiceResponse = fenced ''{"documentType":"Invoice","invoiceNumber":"123","totalAmount":500,"currency":"USD"}'')
   \<and> jsonString invoiceResponse
       = ''{"documentType":"Invoice","invoiceNumber":"123","totalAmount":500,"currency":"USD"}''
   \<and> fst (extractFinancialData scenario ''Invoice #123, Total: $500'' uploaded)
       = Inr (JObject [(''documentType'', JString ''Invoice''), (''invoiceNumber'', JString ''123''),
                       (''totalAmount'', JNumber 500), (''currency'', JString ''USD'')])
   \<and> \<not> sublist ''```'' callResponse
   \<and> jsonString (fencedPlain callResponse) = callResponse
   \<and> fst (analyzeAudio (scenario\<lparr>generateContent := (\<lambda>_. Inr (fencedPlain callResponse))\<rparr>)
            ''/tmp/call.wav'' ''audio/wav'' uploaded)
       = Inr \<lparr> sentiment = Some (JString ''Positive''), speakers = Some (JArray [JString ''Speaker 1'']),
               topics = Some (JArray [JString ''budget'']), transcript = Some (JString ''...'') \<rparr>\<close>
proof -
  let ?body = \<open>''{"documentType":"Invoice","invoiceNumber":"123","totalAmount":500,"currency":"USD"}''\<close>
  let ?ms = "[(''documentType'', JString ''Invoice''), (''invoiceNumber'', JString ''123''),
              (''totalAmount'', JNumber 500), (''currency'', JString ''USD'')]"
  let ?E = "scenario\<lparr>generateContent := (\<lambda>_. Inr (fencedPlain callResponse))\<rparr>"
  let ?ns = "[(''sentiment'', JString ''Positive''), (''speakers'', JArray [JString ''Speaker 1'']),
              (''topics'', JArray [JString ''budget'']), (''transcript'', JString ''...'')]"
  have h1: "\<not> sublist ''```'' ?body" by code_simp
  have h2: "invoiceResponse = fenced ?body" by (simp add: invoiceResponse_def fenced_def)
  have t: "trim ?body = ?body" by code_simp
  have h3: "\<not> missing (GEMINI_API_KEY scenario)" by (simp add: scenario_def missing_def)
  have h4: "generateContent scenario (Text (documentPrompt ''Invoice #123, Total: $500'')) = Inr invoiceResponse"
    by (simp add: scenario_def)
  have "parseJSON ?body = Inr (JObject ?ms)" by code_simp
  then have h5: "JSON_parse scenario (trim ?body) = Inr (JObject ?ms)"
    by (simp only: t) (simp add: scenario_def)
  have g1: "\<not> sublist ''```'' callResponse" by code_simp
  have g2: "\<not> missing (GEMINI_API_KEY ?E)" by (simp add: scenario_def missing_def)
  have g3: "files ?E ''/tmp/call.wav'' = Some (Inr ''RIFF'')" by (simp add: scenario_def)
  have g4: "generateContent ?E (Inline audioPrompt ''audio/wav'' (base64 ?E ''RIFF'')) = Inr (fencedPlain callResponse)"
    by simp
  have t2: "trim callResponse = callResponse" by code_simp
  have "parseJSON callResponse = Inr (JObject ?ns)" by code_simp
  then have g5: "JSON_parse ?E (trim callResponse) = Inr (JObject ?ns)"
    by (simp only: t2) (simp add: scenario_def)
  show ?thesis
    using C6_fence_stripped [of ?body invoiceResponse scenario "''Invoice #123, Total: $500''" ?ms uploaded]
      C6_fence_stripped [of callResponse "fencedPlain callResponse" ?E _ ?ns uploaded
         "''/tmp/call.wav''" "''RIFF''" "''audio/wav''"]
      h1 h2 h3 h4 h5 t g1 g2 g3 g4 g5 t2
    by simp
qed

text \<open>
  C6 as stated covers every fenced JSON object. The second replacement deletes three
  backticks wherever they stand, also inside a string of the enclosed JSON: the client
  then returns an object that differs from the one enclosed.
\<close>

theorem C6_counterexample:
  \<open>parseJSON ''{"a":"```"}'' = Inr (JObject [(''a'', JString ''```'')])
   \<and> fst (extractFinancialData
            (scenario\<lparr>generateContent := (\<lambda>_. Inr (fenced ''{"a":"```"}''))\<rparr>)
            ''Invoice #123, Total: $500'' uploaded)
       = Inr (JObject [(''a'', JString [])])\<close>
  by code_simp

text \<open>
  C7. \<^verbatim>\<open>extractFinancialData\<close> returns exactly the value that \<^verbatim>\<open>JSON.parse\<close> produces
  for the cleaned-up response text, without validation against the schema; a result
  that lacks a \<^verbatim>\<open>currency\<close> property is returned without one, so the schema's default
  \<^verbatim>\<open>USD\<close> is not applied.
\<close>

theorem C7_parsed_as_is:
  "\<not> missing (GEMINI_API_KEY E)
     \<and> generateContent E (Text (documentPrompt fileContent)) = Inr responseText
     \<and> JSON_parse E (jsonString responseText) = Inr data \<longrightarrow>
   fst (extractFinancialData E fileContent s) = Inr data
   \<and> (getProp data ''currency'' = None \<longrightarrow>
        (\<forall>result. fst (extractFinancialData E fileContent s) = Inr result \<longrightarrow>
                  getProp result ''currency'' = None))"
  by (simp add: extractFinancialData_def comp_defs callModel_def)

theorem C7_parsed_as_is_witness:
  \<open>(\<not> missing (GEMINI_API_KEY (scenario\<lparr>generateContent := (\<lambda>_. Inr ''{"documentType":"Receipt","totalAmount":12.5}'')\<rparr>))
     \<and> JSON_parse (scenario\<lparr>generateContent := (\<lambda>_. Inr ''{"documentType":"Receipt","totalAmount":12.5}'')\<rparr>)
          (jsonString ''{"documentType":"Receipt","totalAmount":12.5}'')
        = Inr (JObject [(''documentType'', JString ''Receipt''), (''totalAmount'', JNumber (25 / 2))]))
   \<and> fst (extractFinancialData
            (scenario\<lparr>generateContent := (\<lambda>_. Inr ''{"documentType":"Receipt","totalAmount":12.5}'')\<rparr>)
            ''Receipt, 12.50'' uploaded)
       = Inr (JObject [(''documentType'', JString ''Receipt''), (''totalAmount'', JNumber (25 / 2))])
   \<and> getProp (JObject [(''documentType'', JString ''Receipt''), (''totalAmount'', JNumber (25 / 2))])
        ''currency'' = None\<close>
proof -
  let ?E = \<open>scenario\<lparr>generateContent := (\<lambda>_. Inr ''{"documentType":"Receipt","totalAmount":12.5}'')\<rparr>\<close>
  let ?data = "JObject [(''documentType'', JString ''Receipt''), (''totalAmount'', JNumber (25 / 2))]"
  have h1: "\<not> missing (GEMINI_API_KEY ?E)" by (simp add: scenario_def missing_def)
  have h2: \<open>generateContent ?E (Text (documentPrompt ''Receipt, 12.50''))
      = Inr ''{"documentType":"Receipt","totalAmount":12.5}''\<close>
    by simp
  have \<open>parseJSON (jsonString ''{"documentType":"Receipt","totalAmount":12.5}'') = Inr ?data\<close>
    by code_simp
  then have h3: \<open>JSON_parse ?E (jsonString ''{"documentType":"Receipt","totalAmount":12.5}'') = Inr ?data\<close>
    by (simp add: scenario_def)
  have h4: "getProp ?data ''currency'' = None" by simp
  show ?thesis
    using C7_parsed_as_is [of ?E "''Receipt, 12.50''"
        \<open>''{"documentType":"Receipt","totalAmount":12.5}''\<close> ?data uploaded] h1 h2 h3 h4
    by simp
qed

text \<open>
  C8. A call of \<^verbatim>\<open>extractFinancialData\<close> or of \<^verbatim>\<open>analyzeAudio\<close> made while the
  credential is absent from the environment raises an error whose message names the
  missing credential. The only event of the call is its own entry: the generative model
  is not called and, in \<^verbatim>\<open>analyzeAudio\<close>, the file is not read.
\<close>

theorem C8_missing_credential:
  assumes "GEMINI_API_KEY E = None"
  shows "extractFinancialData E fileContent s =
           (Inl (Error ''Failed to extract financial data from document: GEMINI_API_KEY is missing''),
            s\<lparr>trace := trace s @ [ExtractFinancialData fileContent]\<rparr>)
       \<and> analyzeAudio E filePath fileType s =
           (Inl (Error ''Failed to analyze audio with Gemini: GEMINI_API_KEY is missing''),
            s\<lparr>trace := trace s @ [AnalyzeAudio filePath fileType]\<rparr>)"
  using assms by (simp add: extractFinancialData_def analyzeAudio_def comp_defs missing_def)

theorem C8_missing_credential_witness:
  "GEMINI_API_KEY (scenario\<lparr>GEMINI_API_KEY := None\<rparr>) = None
   \<and> extractFinancialData (scenario\<lparr>GEMINI_API_KEY := None\<rparr>) ''Invoice #123, Total: $500'' uploaded =
       (Inl (Error ''Failed to extract financial data from document: GEMINI_API_KEY is missing''),
        uploaded\<lparr>trace := trace uploaded @ [ExtractFinancialData ''Invoice #123, Total: $500'']\<rparr>)
   \<and> analyzeAudio (scenario\<lparr>GEMINI_API_KEY := None\<rparr>) ''/tmp/call.wav'' ''audio/wav'' uploaded =
       (Inl (Error ''Failed to analyze audio with Gemini: GEMINI_API_KEY is missing''),
        uploaded\<lparr>trace := trace uploaded @ [AnalyzeAudio ''/tmp/call.wav'' ''audio/wav'']\<rparr>)"
  using C8_missing_credential [of "scenario\<lparr>GEMINI_API_KEY := None\<rparr>"
      "''Invoice #123, Total: $500''" uploaded "''/tmp/call.wav''" "''audio/wav''"]
  by simp

text \<open>
  C9. For every audio-job execution that reaches the success write (the analysis step
  returns, the connection succeeds, the update does not throw and the record exists),
  the record ends as \<^verbatim>\<open>COMPLETED\<close> and the transcript written is the literal
  \<^verbatim>\<open>"Transcript not available"\<close> when the analysis result's transcript is falsy, that
  is absent, \<^verbatim>\<open>null\<close>, \<^verbatim>\<open>false\<close>, zero or the empty string; otherwise it is the
  returned transcript.
\<close>

theorem C9_transcript_default:
  "fst (analyze_audio_gemini E filePath s) = Inr analysisData
     \<and> connectFails E = None
     \<and> updateFails E documentId (completedAudio E analysisData) = None
     \<and> store s documentId = Some r \<longrightarrow>
   (\<exists>r'. store (snd (processFinancialAudio E documentId filePath s)) documentId = Some r'
      \<and> r' ''status'' = Some (VJson (JString ''COMPLETED''))
      \<and> r' ''transcript'' =
          (if transcript analysisData
                \<in> {None, Some JNull, Some (JBool False), Some (JNumber 0), Some (JString [])}
           then Some (VJson (JString ''Transcript not available''))
           else map_option VJson (transcript analysisData)))"
proof
  assume h: "fst (analyze_audio_gemini E filePath s) = Inr analysisData
     \<and> connectFails E = None
     \<and> updateFails E documentId (completedAudio E analysisData) = None
     \<and> store s documentId = Some r"
  let ?s1 = "snd (analyze_audio_gemini E filePath s)"
  have "store ?s1 documentId = Some r"
    using analyze_audio_gemini_quiet [of s E filePath] h by (simp add: quiet_def)
  then have "store (snd (writeOutcome E documentId (Inr (completedAudio E analysisData)) ?s1)) documentId
      = Some (applyUpdate r (completedAudio E analysisData))"
    using h by (intro writeOutcome_success) simp_all
  then have "store (snd (processFinancialAudio E documentId filePath s)) documentId
      = Some (applyUpdate r (completedAudio E analysisData))"
    using h by (simp add: audio_job_reaches snd_case_outcome)
  moreover have "applyUpdate r (completedAudio E analysisData) ''transcript'' =
          (if transcript analysisData
                \<in> {None, Some JNull, Some (JBool False), Some (JNumber 0), Some (JString [])}
           then Some (VJson (JString ''Transcript not available''))
           else map_option VJson (transcript analysisData))"
    unfolding transcript_written transcriptOrDefault_def truthy_iff JStr_def by simp
  ultimately show "\<exists>r'. store (snd (processFinancialAudio E documentId filePath s)) documentId = Some r'
      \<and> r' ''status'' = Some (VJson (JString ''COMPLETED''))
      \<and> r' ''transcript'' =
          (if transcript analysisData
                \<in> {None, Some JNull, Some (JBool False), Some (JNumber 0), Some (JString [])}
           then Some (VJson (JString ''Transcript not available''))
           else map_option VJson (transcript analysisData))"
    using status_written [of r E analysisData] by (simp add: JStr_def)
qed

theorem C9_transcript_default_witness:
  "(fst (analyze_audio_gemini scenario ''/tmp/call.wav'' uploaded)
      = Inr \<lparr> sentiment = Some (JString ''Positive''), speakers = Some (JArray [JString ''Speaker 1'']),
              topics = Some (JArray [JString ''budget'']), transcript = Some (JString ''...'') \<rparr>
     \<and> connectFails scenario = None
     \<and> updateFails scenario ''d2'' (completedAudio scenario
          \<lparr> sentiment = Some (JString ''Positive''), speakers = Some (JArray [JString ''Speaker 1'']),
            topics = Some (JArray [JString ''budget'']), transcript = Some (JString ''...'') \<rparr>) = None
     \<and> store uploaded ''d2'' = Some processing)
   \<and> (\<exists>r'. store (snd (processFinancialAudio scenario ''d2'' ''/tmp/call.wav'' uploaded)) ''d2'' = Some r'
      \<and> r' ''status'' = Some (VJson (JString ''COMPLETED''))
      \<and> r' ''transcript'' = Some (VJson (JString ''...'')))"
proof -
  have h1: "fst (analyze_audio_gemini scenario ''/tmp/call.wav'' uploaded)
      = Inr \<lparr> sentiment = Some (JString ''Positive''), speakers = Some (JArray [JString ''Speaker 1'']),
              topics = Some (JArray [JString ''budget'']), transcript = Some (JString ''...'') \<rparr>"
    by code_simp
  have h2: "connectFails scenario = None"
    and h3: "updateFails scenario ''d2'' (completedAudio scenario
          \<lparr> sentiment = Some (JString ''Positive''), speakers = Some (JArray [JString ''Speaker 1'']),
            topics = Some (JArray [JString ''budget'']), transcript = Some (JString ''...'') \<rparr>) = None"
    and h4: "store uploaded ''d2'' = Some processing"
    by (simp_all add: scenario_def uploaded_def)
  show ?thesis
    using C9_transcript_default [of scenario "''/tmp/call.wav''" uploaded
        "\<lparr> sentiment = Some (JString ''Positive''), speakers = Some (JArray [JString ''Speaker 1'']),
            topics = Some (JArray [JString ''budget'']), transcript = Some (JString ''...'') \<rparr>"
        "''d2''" processing] h1 h2 h3 h4
    by simp
qed

text \<open>
  C9 as stated names only the absent and the empty transcript. A generative model that
  answers \<^verbatim>\<open>"transcript": null\<close> returns a transcript that is neither, and the record
  still receives the literal, not the returned value.
\<close>

theorem C9_counterexample:
  \<open>fst (analyze_audio_gemini
          (scenario\<lparr>generateContent :=
             (\<lambda>_. Inr ''{"sentiment":"Neutral","speakers":[],"topics":[],"transcript":null}'')\<rparr>)
          ''/tmp/call.wav'' uploaded)
     = Inr \<lparr> sentiment = Some (JString ''Neutral''), speakers = Some (JArray []),
             topics = Some (JArray []), transcript = Some JNull \<rparr>
   \<and> (case store (snd (processFinancialAudio
          (scenario\<lparr>generateContent :=
             (\<lambda>_. Inr ''{"sentiment":"Neutral","speakers":[],"topics":[],"transcript":null}'')\<rparr>)
          ''d2'' ''/tmp/call.wav'' uploaded)) ''d2'' of
         None \<Rightarrow> None
       | Some r' \<Rightarrow> r' ''transcript'')
     = Some (VJson (JString ''Transcript not available''))\<close>
  by code_simp

text \<open>
  C10. For every audio-job execution, \<^verbatim>\<open>analyzeAudio\<close> is called at most once: not at
  all when the file does not exist, and otherwise once with the event's path and a mime
  type fixed by the path alone, \<^verbatim>\<open>audio/wav\<close> when the path ends with \<^verbatim>\<open>.wav\<close> and
  \<^verbatim>\<open>audio/mp3\<close> for every other path, whatever the file holds.
\<close>

theorem C10_mime_from_suffix:
  "audioCalls (newEvents s (snd (processFinancialAudio E documentId filePath s)))
     = (if files E filePath = None then []
        else [(filePath, if suffix ''.wav'' filePath then ''audio/wav'' else ''audio/mp3'')])"
proof (cases "fst (analyze_audio_gemini E filePath s)")
  case (Inl e)
  then show ?thesis
    using analyze_audio_gemini_calls [of s E filePath]
    by (simp add: audio_job_stops fileTypeOf_suffix)
next
  case (Inr a)
  let ?s1 = "snd (analyze_audio_gemini E filePath s)"
  let ?s2 = "snd (writeOutcome E documentId (Inr (completedAudio E a)) ?s1)"
  have "newEvents s ?s2 = newEvents s ?s1 @ newEvents ?s1 ?s2"
    using analyze_audio_gemini_calls [of s E filePath] writeOutcome_trace [of ?s1 E documentId]
    by (intro newEvents_append) simp_all
  then have "audioCalls (newEvents s ?s2) = audioCalls (newEvents s ?s1)"
    by (simp add: audioCalls_append writeOutcome_calls)
  then show ?thesis
    using analyze_audio_gemini_calls [of s E filePath]
    by (simp add: audio_job_reaches [OF Inr] snd_case_outcome fileTypeOf_suffix)
qed

theorem C10_mime_from_suffix_witness:
  "audioCalls (newEvents uploaded (snd (processFinancialAudio scenario ''d2'' ''/tmp/call.wav'' uploaded)))
     = [(''/tmp/call.wav'', ''audio/wav'')]
   \<and> audioCalls (newEvents uploaded (snd (processFinancialAudio
        (scenario\<lparr>files := [''/tmp/call.WAV'' \<mapsto> Inr ''RIFF'']\<rparr>) ''d2'' ''/tmp/call.WAV'' uploaded)))
     = [(''/tmp/call.WAV'', ''audio/mp3'')]"
proof -
  have "suffix ''.wav'' ''/tmp/call.wav''" and "\<not> suffix ''.wav'' ''/tmp/call.WAV''"
    by (simp_all add: suffix_def)
  moreover have "files scenario ''/tmp/call.wav'' \<noteq> None"
    and "files (scenario\<lparr>files := [''/tmp/call.WAV'' \<mapsto> Inr ''RIFF'']\<rparr>) ''/tmp/call.WAV'' \<noteq> None"
    by (simp_all add: scenario_def)
  ultimately show ?thesis
    using C10_mime_from_suffix [of uploaded scenario "''d2''" "''/tmp/call.wav''"]
      C10_mime_from_suffix [of uploaded "scenario\<lparr>files := [''/tmp/call.WAV'' \<mapsto> Inr ''RIFF'']\<rparr>"
        "''d2''" "''/tmp/call.WAV''"]
    by simp
qed

end
